theory Spec2Isabelle
  imports Main "HOL-Library.Word" "HOL-Library.Sublist"
begin

section \<open>The debayer demo: a shallow embedding of \<open>main.c\<close>\<close>

text \<open>
  The program is a straight line of calls into libc, GBM, EGL and OpenGL ES. The
  embedding keeps that shape. Every call into a library is an event of a trace, in
  program order, with the arguments the program passed and the result the library
  gave back. What a library answers is not decided by the program, so each function
  takes a record of answers (one field per call site) and returns its trace together
  with its C return value.

  Machine integers follow the LP64 data model of 64-bit Linux: \<open>int\<close>, \<open>GLint\<close>,
  \<open>GLsizei\<close>, \<open>GLenum\<close> and \<open>GLuint\<close> are 32-bit words, \<open>long\<close>, \<open>size_t\<close>,
  \<open>GLsizeiptr\<close> and \<open>GLuint64\<close> are 64-bit words. Signed comparisons read a word
  with \<open>sint\<close>. Pointers and opaque handles are natural numbers, \<open>0\<close> being
  \<open>NULL\<close>.
\<close>

subsection \<open>C types\<close>

type_synonym cint = "32 word"
type_synonym long = "64 word"
type_synonym size_t = "64 word"
type_synonym ptr = nat
type_synonym GLuint = "32 word"
type_synonym GLenum = "32 word"

definition NULL :: ptr where
  "NULL = 0"

text \<open>Arguments of \<open>printf\<close> after the format string.\<close>

datatype parg = I int | S string

text \<open>Symbolic constants of the system headers that the program only passes on.\<close>

datatype whence = SEEK_SET | SEEK_END

datatype cconst =
    O_RDWR
  | EGL_PLATFORM_GBM_MESA | EGL_EXTENSIONS | EGL_OPENGL_ES_API
  | GL_MAJOR_VERSION | GL_MINOR_VERSION
  | GL_COMPUTE_SHADER | GL_COMPILE_STATUS | GL_INFO_LOG_LENGTH
  | GL_SHADER_STORAGE_BUFFER | GL_COPY_WRITE_BUFFER
  | GL_STREAM_DRAW | GL_STREAM_READ
  | GL_ALL_BARRIER_BITS | GL_SYNC_GPU_COMMANDS_COMPLETE
  | GL_SYNC_FLUSH_COMMANDS_BIT | GL_MAP_READ_BIT

subsection \<open>Events\<close>

text \<open>
  One constructor per library function the program calls. The last argument of a
  constructor is the value the call returned (or stored through an out-pointer),
  where the program looks at it.
\<close>

datatype libc_call =
    Fopen string string ptr
  | Fseek ptr long whence
  | Ftell ptr long
  | Malloc size_t ptr
  | Fread ptr size_t size_t ptr size_t
  | Fwrite ptr size_t size_t ptr size_t
  | Fclose ptr
  | Free ptr
  | Printf string "parg list"
  | Perror string
  | Open string cconst cint
  | Close cint

datatype egl_call =
    GbmCreateDevice cint ptr
  | GbmDeviceDestroy ptr
  | EglGetPlatformDisplay cconst ptr ptr
  | EglInitialize ptr cint
  | EglQueryString ptr cconst "string option"
  | EglChooseConfig ptr bool cint cint
  | EglGetError cint
  | EglBindAPI cconst cint
  | EglCreateContext ptr ptr ptr
  | EglMakeCurrent ptr ptr cint
  | EglDestroyContext ptr ptr
  | EglTerminate ptr

datatype gl_call =
    GlGetIntegerv cconst cint
  | GlGetError GLenum
  | GlCreateShader cconst GLuint
  | GlShaderSource GLuint ptr cint
  | GlCompileShader GLuint
  | GlGetShaderiv GLuint cconst cint
  | GlGetShaderInfoLog GLuint cint ptr
  | GlCreateProgram GLuint
  | GlAttachShader GLuint GLuint
  | GlLinkProgram GLuint
  | GlDeleteShader GLuint
  | GlDeleteProgram GLuint
  | GlUseProgram GLuint
  | GlGenBuffers nat "GLuint \<times> GLuint"
  | GlBindBuffer cconst GLuint
  | GlBufferData cconst long ptr cconst
  | GlBindBufferBase cconst nat GLuint
  | GlDispatchCompute nat nat nat
  | GlMemoryBarrier cconst
  | GlFenceSync cconst ptr
  | GlClientWaitSync ptr cconst "64 word"
  | GlMapBufferRange cconst long long cconst ptr
  | GlUnmapBuffer cconst
  | GlDeleteBuffers nat "GLuint \<times> GLuint"

datatype event = Libc libc_call | Egl egl_call | Gl gl_call

type_synonym trace = "event list"

subsection \<open>File helpers\<close>

text \<open>What libc answers during one call of \<open>read_input_file\<close>.\<close>

record read_env =
  fopen_res :: ptr
  ftell_res :: long
  malloc_res :: ptr
  fread_res :: size_t

text \<open>The two labels at the end of \<open>read_input_file\<close>; \<open>err_fread\<close> falls through.\<close>

definition err_seek :: "ptr \<Rightarrow> trace" where
  "err_seek fp = [Libc (Fclose fp)]"

definition err_fread :: "ptr \<Rightarrow> ptr \<Rightarrow> trace" where
  "err_fread p_data fp = Libc (Free p_data) # err_seek fp"

text \<open>
  \<open>read_input_file fname data type\<close>: \<open>data\<close> is the value of \<open>*data\<close> before the
  call; the third component of the result is its value afterwards.
\<close>

definition read_input_file :: "string \<Rightarrow> ptr \<Rightarrow> string \<Rightarrow> read_env \<Rightarrow> trace \<times> long \<times> ptr" where
  "read_input_file fname data type e =
    (let fp = fopen_res e;
         t0 = [Libc (Fopen fname type fp)]
     in if fp = NULL then (t0, 0, data)
        else
          let size = ftell_res e;
              t1 = t0 @ [Libc (Fseek fp 0 SEEK_END), Libc (Ftell fp size),
                         Libc (Fseek fp 0 SEEK_SET)]
          in if sint size \<le> 0 then (t1 @ err_seek fp, - 1, data)
             else
               let p_data = malloc_res e;
                   t2 = t1 @ [Libc (Malloc size p_data)]
               in if p_data = NULL then (t2 @ err_seek fp, - 1, data)
                  else
                    let t3 = t2 @ [Libc (Fread p_data 1 size fp (fread_res e))]
                    in if fread_res e \<noteq> size then (t3 @ err_fread p_data fp, - 1, data)
                       else (t3 @ [Libc (Fclose fp)], size, p_data))"

definition read_input_bin_file :: "string \<Rightarrow> ptr \<Rightarrow> read_env \<Rightarrow> trace \<times> long \<times> ptr" where
  "read_input_bin_file fname data e = read_input_file fname data ''rb'' e"

definition read_input_text_file :: "string \<Rightarrow> ptr \<Rightarrow> read_env \<Rightarrow> trace \<times> long \<times> ptr" where
  "read_input_text_file fname data e = read_input_file fname data ''r'' e"

record write_env =
  wfopen_res :: ptr
  fwrite_res :: size_t

definition write_output_file :: "string \<Rightarrow> ptr \<Rightarrow> long \<Rightarrow> write_env \<Rightarrow> trace \<times> long" where
  "write_output_file fname p_data data_size e =
    (let fp = wfopen_res e;
         t0 = [Libc (Fopen fname ''wb'' fp)]
     in if fp = NULL then (t0, 0)
        else
          let t1 = t0 @ [Libc (Fwrite p_data 1 data_size fp (fwrite_res e))]
          in if fwrite_res e \<noteq> data_size then (t1 @ [Libc (Fclose fp)], - 1)
             else (t1 @ [Libc (Fclose fp)], data_size))"

subsection \<open>The converter context\<close>

datatype bo_index = bo_in | bo_out

definition bo_num :: nat where
  "bo_num = 2"

text \<open>
  \<open>struct converter\<close>. The array \<open>bos[bo_num]\<close> is a pair, read with \<open>bos_at\<close>.
  The fields \<open>p_in\<close> and \<open>p_out\<close> are never read or written by the program.
\<close>

record converter =
  fd :: cint
  gbm :: ptr
  egl_dpy :: ptr
  core_ctx :: ptr
  bos :: "GLuint \<times> GLuint"
  p_in :: ptr
  p_out :: ptr
  shader_program :: GLuint
  compute_shader :: GLuint
  shader_fname :: string

fun bos_at :: "converter \<Rightarrow> bo_index \<Rightarrow> GLuint" where
  "bos_at conv bo_in = fst (bos conv)"
| "bos_at conv bo_out = snd (bos conv)"

definition RENDER_NODE_FNAME :: string where
  "RENDER_NODE_FNAME = ''/dev/dri/renderD128''"

definition SHADER_FNAME :: string where
  "SHADER_FNAME = ''./debayer.comp''"

subsection \<open>EGL set-up and tear-down\<close>

definition EGL_TRUE :: cint where
  "EGL_TRUE = 1"

definition EGL_NO_CONTEXT :: ptr where
  "EGL_NO_CONTEXT = 0"

text \<open>
  \<open>strstr haystack needle\<close>: the suffix of the haystack that starts at the first
  occurrence of the needle, \<open>None\<close> for \<open>NULL\<close>.
\<close>

fun strstr :: "string \<Rightarrow> string \<Rightarrow> string option" where
  "strstr [] needle = (if needle = [] then Some [] else None)"
| "strstr (c # cs) needle =
     (if prefix needle (c # cs) then Some (c # cs) else strstr cs needle)"

text \<open>
  What the system answers during \<open>init_egl\<close>, one field per call in program order.
  \<open>eglQueryString\<close> may return \<open>NULL\<close> (\<open>None\<close>).
\<close>

record egl_env =
  open_res :: cint
  gbm_create_device_res :: ptr
  get_platform_display_res :: ptr
  initialize_res :: cint
  egl_major :: cint
  egl_minor :: cint
  query_string_res :: "string option"
  choose_count_res :: cint
  choose_count_n :: cint
  choose_config_res :: cint
  choose_config_cfg :: ptr
  choose_config_err :: cint
  bind_api_res :: cint
  bind_api_err :: cint
  create_context_res :: ptr
  make_current_res :: cint
  make_current_err :: cint
  gl_major :: cint
  gl_minor :: cint

text \<open>The four labels at the end of \<open>init_egl\<close>; each falls through to the next.\<close>

definition err_gbm :: "converter \<Rightarrow> trace" where
  "err_gbm conv = [Libc (Close (fd conv))]"

definition err_egl_dpy :: "converter \<Rightarrow> trace" where
  "err_egl_dpy conv = Egl (GbmDeviceDestroy (gbm conv)) # err_gbm conv"

definition err_egl_ctx :: "converter \<Rightarrow> trace" where
  "err_egl_ctx conv = Egl (EglTerminate (egl_dpy conv)) # err_egl_dpy conv"

definition err_egl_make_current :: "converter \<Rightarrow> trace" where
  "err_egl_make_current conv =
     Egl (EglDestroyContext (egl_dpy conv) (core_ctx conv)) # err_egl_ctx conv"

text \<open>
  \<open>init_egl\<close> returns its trace, the converter as it left it, and its return value.
  The return value is \<open>None\<close> when the program has no defined behaviour: the result
  of \<open>eglQueryString\<close> is handed to \<open>strstr\<close> unchecked, and a \<open>NULL\<close> there is
  dereferenced.
\<close>

definition init_egl :: "converter \<Rightarrow> string \<Rightarrow> egl_env \<Rightarrow> trace \<times> converter \<times> cint option" where
  "init_egl conv0 render_node e =
    (let conv = conv0\<lparr>fd := open_res e\<rparr>;
         t0 = [Libc (Open render_node O_RDWR (fd conv))]
     in if sint (fd conv) < 0 then (t0 @ [Libc (Perror ''init_opengl: '')], conv, Some (- 1))
     else
     let conv = conv\<lparr>gbm := gbm_create_device_res e\<rparr>;
         t1 = t0 @ [Egl (GbmCreateDevice (fd conv) (gbm conv))]
     in if gbm conv = NULL then
          (t1 @ [Libc (Printf ''init_opengl: failed to create GBM device\<newline>'' [])]
              @ err_gbm conv, conv, Some (- 1))
     else
     let conv = conv\<lparr>egl_dpy := get_platform_display_res e\<rparr>;
         t2 = t1 @ [Egl (EglGetPlatformDisplay EGL_PLATFORM_GBM_MESA (gbm conv) (egl_dpy conv))]
     in if egl_dpy conv = NULL then
          (t2 @ [Libc (Printf ''init_opengl: eglGetPlatformDisplay() failed\<newline>'' [])]
              @ err_egl_dpy conv, conv, Some (- 1))
     else
     let t3 = t2 @ [Egl (EglInitialize (egl_dpy conv) (initialize_res e))]
     in if initialize_res e \<noteq> EGL_TRUE then
          (t3 @ [Libc (Printf ''init_opengl: eglInitialize() failed\<newline>'' [])]
              @ err_egl_ctx conv, conv, Some (- 1))
     else
     let t4 = t3 @ [Libc (Printf ''EGL version: %d.%d\<newline>''
                            [I (sint (egl_major e)), I (sint (egl_minor e))]),
                    Egl (EglQueryString (egl_dpy conv) EGL_EXTENSIONS (query_string_res e))]
     in case query_string_res e of
          None \<Rightarrow> (t4, conv, None)
        | Some egl_extension_st \<Rightarrow>
     if strstr egl_extension_st ''EGL_KHR_create_context'' = None \<or>
        strstr egl_extension_st ''EGL_KHR_surfaceless_context'' = None then
          (t4 @ [Libc (Printf ''init_opengl: EGL_KHR_create_context or EGL_KHR_surfaceless_context not supported\<newline>'' [])]
              @ err_egl_ctx conv, conv, Some (- 1))
     else
     let t5 = t4 @ [Egl (EglChooseConfig (egl_dpy conv) False 0 (choose_count_res e))]
                 @ (if choose_count_res e = 0 then
                      [Libc (Printf ''init_opengl: eglChooseConfig(&cfg == NULL) failed\<newline>'' [])]
                    else [])
                 @ [Libc (Printf ''eglChooseConfig(): %d matching configs available\<newline>''
                            [I (sint (choose_count_n e))])];
         t6 = t5 @ [Egl (EglChooseConfig (egl_dpy conv) True 1 (choose_config_res e))]
     in if choose_config_res e = 0 then
          (t6 @ [Egl (EglGetError (choose_config_err e)),
                 Libc (Printf ''init_opengl: eglChooseConfig() failed: %d\<newline>''
                         [I (sint (choose_config_err e))])]
              @ err_egl_ctx conv, conv, Some (- 1))
     else
     let t7 = t6 @ [Egl (EglBindAPI EGL_OPENGL_ES_API (bind_api_res e))]
     in if bind_api_res e = 0 then
          (t7 @ [Egl (EglGetError (bind_api_err e)),
                 Libc (Printf ''init_opengl: eglBindAPI() failed: %d\<newline>''
                         [I (sint (bind_api_err e))])]
              @ err_egl_ctx conv, conv, Some (- 1))
     else
     let conv = conv\<lparr>core_ctx := create_context_res e\<rparr>;
         t8 = t7 @ [Egl (EglCreateContext (egl_dpy conv) (choose_config_cfg e) (core_ctx conv))]
     in if core_ctx conv = EGL_NO_CONTEXT then
          (t8 @ [Libc (Printf ''init_opengl: eglCreateContext() failed\<newline>'' [])]
              @ err_egl_ctx conv, conv, Some (- 1))
     else
     let t9 = t8 @ [Egl (EglMakeCurrent (egl_dpy conv) (core_ctx conv) (make_current_res e))]
     in if make_current_res e = 0 then
          (t9 @ [Egl (EglGetError (make_current_err e)),
                 Libc (Printf ''init_opengl: eglMakeCurrent() failed: %d\<newline>''
                         [I (sint (make_current_err e))])]
              @ err_egl_make_current conv, conv, Some (- 1))
     else
       (t9 @ [Gl (GlGetIntegerv GL_MAJOR_VERSION (gl_major e)),
              Gl (GlGetIntegerv GL_MINOR_VERSION (gl_minor e)),
              Libc (Printf ''*** EGL version: %d.%d\<newline>''
                      [I (sint (gl_major e)), I (sint (gl_minor e))])],
        conv, Some 0))"

definition deinit_egl :: "converter \<Rightarrow> trace" where
  "deinit_egl conv =
     [Egl (EglDestroyContext (egl_dpy conv) (core_ctx conv)),
      Egl (EglTerminate (egl_dpy conv)),
      Egl (GbmDeviceDestroy (gbm conv)),
      Libc (Close (fd conv))]"

subsection \<open>Shader set-up\<close>

definition GL_NO_ERROR :: GLenum where
  "GL_NO_ERROR = 0"

definition GL_TRUE :: cint where
  "GL_TRUE = 1"

definition dq :: string where
  "dq = [CHR 0x22]"

text \<open>
  What the system answers during \<open>init_shader\<close>. \<open>shader_src_uninit\<close> is the
  indeterminate value that the local \<open>shader_src\<close> holds before it is assigned.
\<close>

record shader_env =
  shader_src_uninit :: ptr
  shader_file :: read_env
  create_shader_res :: GLuint
  create_shader_err :: GLenum
  shader_source_err :: GLenum
  compile_status :: cint
  info_log_length :: cint
  log_malloc_res :: ptr
  info_log :: string
  info_log_err :: GLenum
  create_program_res :: GLuint
  create_program_err :: GLenum
  attach_err :: GLenum
  link_err :: GLenum

definition err_del_shader :: "converter \<Rightarrow> trace" where
  "err_del_shader conv = [Gl (GlDeleteShader (compute_shader conv))]"

definition err_del_program :: "converter \<Rightarrow> trace" where
  "err_del_program conv = Gl (GlDeleteProgram (shader_program conv)) # err_del_shader conv"

text \<open>
  The \<open>long\<close> that \<open>read_input_text_file\<close> returns is stored in the \<open>int\<close>
  \<open>shader_cnt\<close> (\<open>ucast\<close> to 32 bits); a \<open>GLenum\<close> is returned as \<open>int\<close> with
  the same bits.
\<close>

definition init_shader :: "converter \<Rightarrow> shader_env \<Rightarrow> trace \<times> converter \<times> cint" where
  "init_shader conv0 e =
    (case read_input_text_file (shader_fname conv0) (shader_src_uninit e) (shader_file e) of
       (tr, n, shader_src) \<Rightarrow>
     let shader_cnt = (ucast n :: cint)
     in if sint shader_cnt \<le> 0 then
          (tr @ [Libc (Printf (''Fail to read the shader source from file '' @ dq @ ''%s'' @ dq
                                 @ ''\<newline>'') [S (shader_fname conv0)])],
           conv0, GL_TRUE)
     else
     let conv = conv0\<lparr>compute_shader := create_shader_res e\<rparr>;
         t1 = tr @ [Libc (Printf (''%d bytes read from '' @ dq @ ''%s'' @ dq @ ''\<newline>'')
                            [I (sint shader_cnt), S (shader_fname conv0)]),
                    Gl (GlCreateShader GL_COMPUTE_SHADER (compute_shader conv))]
     in if compute_shader conv = 0 then
          (t1 @ [Libc (Free shader_src), Gl (GlGetError (create_shader_err e))],
           conv, create_shader_err e)
     else
     let t2 = t1 @ [Gl (GlShaderSource (compute_shader conv) shader_src shader_cnt),
                    Libc (Free shader_src), Gl (GlGetError (shader_source_err e))]
     in if shader_source_err e \<noteq> GL_NO_ERROR then (t2, conv, shader_source_err e)
     else
     let t3 = t2 @ [Gl (GlCompileShader (compute_shader conv)),
                    Gl (GlGetShaderiv (compute_shader conv) GL_COMPILE_STATUS (compile_status e))]
     in if compile_status e \<noteq> GL_TRUE then
          let param = info_log_length e;
              compile_log = log_malloc_res e;
              t4 = t3 @ [Gl (GlGetShaderiv (compute_shader conv) GL_INFO_LOG_LENGTH param),
                         Libc (Printf ''glCompileShader() failed'' []),
                         Libc (Malloc (scast param) compile_log)]
          in if compile_log = NULL then
               (t4 @ [Libc (Printf '', no log is available\<newline>'' [])], conv, GL_TRUE)
             else
               (t4 @ [Gl (GlGetShaderInfoLog (compute_shader conv) param compile_log),
                      Gl (GlGetError (info_log_err e))]
                   @ (if info_log_err e = GL_NO_ERROR then
                        [Libc (Printf ''glCompileShader failed:\<newline>--- log ---\<newline>%s\<newline>--- log ---\<newline>''
                                 [S (info_log e)])]
                      else [])
                   @ [Libc (Free compile_log)],
                conv, GL_TRUE)
     else
     let conv = conv\<lparr>shader_program := create_program_res e\<rparr>;
         t5 = t3 @ [Gl (GlCreateProgram (shader_program conv))]
     in if shader_program conv = 0 then
          (t5 @ [Gl (GlGetError (create_program_err e))] @ err_del_shader conv,
           conv, create_program_err e)
     else
     let t6 = t5 @ [Gl (GlAttachShader (shader_program conv) (compute_shader conv)),
                    Gl (GlGetError (attach_err e))]
     in if attach_err e \<noteq> GL_NO_ERROR then (t6 @ err_del_program conv, conv, attach_err e)
     else
     let t7 = t6 @ [Gl (GlLinkProgram (shader_program conv)), Gl (GlGetError (link_err e))]
     in if link_err e \<noteq> GL_NO_ERROR then (t7 @ err_del_program conv, conv, link_err e)
     else (t7 @ [Gl (GlDeleteShader (compute_shader conv))], conv, 0))"

text \<open>\<open>use_shader\<close>, given what \<open>glGetError\<close> answers after \<open>glUseProgram\<close>.\<close>

definition use_shader :: "GLuint \<Rightarrow> GLenum \<Rightarrow> trace \<times> cint" where
  "use_shader program err =
     ([Gl (GlUseProgram program), Gl (GlGetError err)],
      if err \<noteq> GL_NO_ERROR then 1 else 0)"

definition free_shader :: "converter \<Rightarrow> trace" where
  "free_shader conv = [Gl (GlDeleteProgram (shader_program conv))]"

subsection \<open>Command line\<close>

text \<open>
  \<open>getopt\<close> belongs to libc. It is modelled after getopt(3) for an option string without
  a leading \<open>+\<close>, \<open>-\<close> or \<open>:\<close>. The state has the arguments not yet looked at
  (\<open>argv[optind..]\<close>), the rest of the option cluster being read, and the operands
  passed over so far. With \<open>permute\<close> (glibc's default) operands are passed over and
  end up after the options; without it (POSIX, or glibc with \<open>POSIXLY_CORRECT\<close> set)
  the first operand ends the options. The result is the return value (\<open>-1\<close> at the
  end, the code of \<open>?\<close> for an unknown option or a missing argument), \<open>optarg\<close> and
  the next state. After \<open>-1\<close> the operands \<open>argv[optind..argc-1]\<close> are
  \<open>nonopts st @ unscanned st\<close>. Messages of \<open>getopt\<close> on \<open>stderr\<close> are left out.
\<close>

record getopt_state =
  unscanned :: "string list"
  nextchar :: string
  nonopts :: "string list"

fun opt_lookup :: "string \<Rightarrow> char \<Rightarrow> bool option" where
  "opt_lookup [] c = None"
| "opt_lookup (x # xs) c =
     (if x = c \<and> c \<noteq> CHR '':'' then Some (case xs of [] \<Rightarrow> False | y # ys \<Rightarrow> y = CHR '':'')
      else opt_lookup xs c)"

definition getopt_short ::
  "string \<Rightarrow> char \<Rightarrow> string \<Rightarrow> string list \<Rightarrow> string list \<Rightarrow> int \<times> string option \<times> getopt_state" where
  "getopt_short optstring c cs rest skipped =
     (case opt_lookup optstring c of
        None \<Rightarrow>
          (of_char CHR ''?'', None, \<lparr>unscanned = rest, nextchar = cs, nonopts = skipped\<rparr>)
      | Some False \<Rightarrow>
          (of_char c, None, \<lparr>unscanned = rest, nextchar = cs, nonopts = skipped\<rparr>)
      | Some True \<Rightarrow>
          if cs \<noteq> [] then
            (of_char c, Some cs, \<lparr>unscanned = rest, nextchar = [], nonopts = skipped\<rparr>)
          else
            (case rest of
               [] \<Rightarrow>
                 (of_char CHR ''?'', None, \<lparr>unscanned = [], nextchar = [], nonopts = skipped\<rparr>)
             | a # rest' \<Rightarrow>
                 (of_char c, Some a, \<lparr>unscanned = rest', nextchar = [], nonopts = skipped\<rparr>)))"

definition is_option :: "string \<Rightarrow> bool" where
  "is_option a = (case a of d # c # cs \<Rightarrow> d = CHR ''-'' | _ \<Rightarrow> False)"

fun getopt_scan ::
  "bool \<Rightarrow> string \<Rightarrow> string list \<Rightarrow> string list \<Rightarrow> int \<times> string option \<times> getopt_state" where
  "getopt_scan permute optstring [] skipped =
     (- 1, None, \<lparr>unscanned = [], nextchar = [], nonopts = skipped\<rparr>)"
| "getopt_scan permute optstring (a # rest) skipped =
     (if a = ''--'' then (- 1, None, \<lparr>unscanned = rest, nextchar = [], nonopts = skipped\<rparr>)
      else if is_option a then getopt_short optstring (hd (tl a)) (tl (tl a)) rest skipped
      else if permute then getopt_scan permute optstring rest (skipped @ [a])
      else (- 1, None, \<lparr>unscanned = a # rest, nextchar = [], nonopts = skipped\<rparr>))"

definition getopt :: "bool \<Rightarrow> string \<Rightarrow> getopt_state \<Rightarrow> int \<times> string option \<times> getopt_state" where
  "getopt permute optstring st =
     (case nextchar st of
        [] \<Rightarrow> getopt_scan permute optstring (unscanned st) (nonopts st)
      | c # cs \<Rightarrow> getopt_short optstring c cs (unscanned st) (nonopts st))"

text \<open>The number of characters \<open>getopt\<close> has still to read; it bounds the option loop.\<close>

definition getopt_size :: "getopt_state \<Rightarrow> nat" where
  "getopt_size st = length (nextchar st) + sum_list (map (\<lambda>a. Suc (length a)) (unscanned st))"

definition USAGE :: string where
  "USAGE = ''Usage: %s [-h] -s XxY -f <format> <inputfile> <outputfile>\<newline>''
         @ ''-f <order>   Specify input file format\<newline>''
         @ ''-s XxY       Specify input image size (e.g. 640x480)\<newline>''
         @ ''-h           Shows this help\<newline>''"

definition parse_bayer_order :: "string option \<Rightarrow> cint \<Rightarrow> cint \<times> cint" where
  "parse_bayer_order p bo = (- 1, bo)"

lemma getopt_short_size:
  "getopt_short os c cs rest sk = (r, oa, st') \<Longrightarrow>
     getopt_size st' \<le> length cs + sum_list (map (\<lambda>a. Suc (length a)) rest)"
  by (auto simp: getopt_short_def getopt_size_def split: option.splits bool.splits if_splits list.splits)

lemma getopt_scan_size:
  "getopt_scan p os xs sk = (r, oa, st') \<Longrightarrow> r \<noteq> - 1 \<Longrightarrow>
     getopt_size st' < sum_list (map (\<lambda>a. Suc (length a)) xs)"
proof (induction xs arbitrary: sk)
  case Nil
  then show ?case by simp
next
  case (Cons a xs)
  show ?case
  proof (cases "is_option a \<and> a \<noteq> ''--''")
    case True
    then obtain d c cs where a: "a = d # c # cs"
      by (auto simp: is_option_def split: list.splits)
    from Cons.prems True have "getopt_short os c cs xs sk = (r, oa, st')"
      by (auto simp: a split: if_splits)
    from getopt_short_size [OF this] show ?thesis by (simp add: a)
  next
    case False
    with Cons.prems have "p" and "getopt_scan p os xs (sk @ [a]) = (r, oa, st')"
      by (auto split: if_splits)
    from Cons.IH [OF this(2) Cons.prems(2)] show ?thesis by simp
  qed
qed

lemma getopt_decreases:
  assumes "getopt p os st = (r, oa, st')" and "r \<noteq> - 1"
  shows "getopt_size st' < getopt_size st"
proof (cases "nextchar st")
  case Nil
  with assms getopt_scan_size [of p os "unscanned st" "nonopts st" r oa st'] show ?thesis
    by (simp add: getopt_def getopt_size_def)
next
  case (Cons c cs)
  with assms getopt_short_size [of os c cs "unscanned st" "nonopts st" r oa st'] show ?thesis
    by (simp add: getopt_def getopt_size_def)
qed

text \<open>
  The option loop of \<open>main\<close>: \<open>Inl r\<close> when the loop leaves \<open>main\<close> with \<open>return r\<close>,
  \<open>Inr st\<close> when \<open>getopt\<close> returned \<open>-1\<close> in state \<open>st\<close>.
\<close>

function main_opts :: "bool \<Rightarrow> string \<Rightarrow> cint \<Rightarrow> getopt_state \<Rightarrow> trace \<times> (cint + getopt_state)" where
  "main_opts permute argv0 b_ord st =
     (case getopt permute ''f:h'' st of
        (c, optarg, st') \<Rightarrow>
          if c = - 1 then ([], Inr st')
          else if c = of_char CHR ''f'' then
            (case parse_bayer_order optarg b_ord of
               (r, b_ord') \<Rightarrow>
                 if sint r < 0 then ([Libc (Printf ''bad bayer order\<newline>'' [])], Inl (- 1))
                 else main_opts permute argv0 b_ord' st')
          else if c = of_char CHR ''h'' then ([Libc (Printf USAGE [S argv0])], Inl 0)
          else main_opts permute argv0 b_ord st')"
  by pat_completeness auto
termination
  by (relation "measure (\<lambda>(permute, argv0, b_ord, st). getopt_size st)")
     (auto intro: getopt_decreases [OF sym])

subsection \<open>The entry point\<close>

definition LSIZE_X :: nat where
  "LSIZE_X = 32"

definition LSIZE_Y :: nat where
  "LSIZE_Y = 8"

definition WG_NUM_X :: nat where
  "WG_NUM_X = 1920 div LSIZE_X"

definition WG_NUM_Y :: nat where
  "WG_NUM_Y = 1080 div LSIZE_Y"

definition EXIT_FAILURE :: cint where
  "EXIT_FAILURE = 1"

text \<open>What OpenGL answers to the calls made by \<open>main\<close> itself.\<close>

record gl_env =
  gen_buffers_res :: "GLuint \<times> GLuint"
  buffer_in_err :: GLenum
  buffer_out_err :: GLenum
  use_program_err :: GLenum
  dispatch_err :: GLenum
  fence_sync_res :: ptr
  map_buffer_res :: ptr
  map_buffer_err :: GLenum

text \<open>
  Everything \<open>main\<close> does not decide itself: the answers of the libraries, and the
  indeterminate values that the locals \<open>cvt\<close>, \<open>p_data_in\<close> and \<open>sync\<close> hold before
  they are assigned.
\<close>

record env =
  cvt_uninit :: converter
  p_data_in_uninit :: ptr
  sync_uninit :: ptr
  in_file :: read_env
  egl :: egl_env
  shader :: shader_env
  gl :: gl_env
  out_file :: write_env

text \<open>
  How the process ends: \<open>main\<close> returns, \<open>exit\<close> is called, or the behaviour is
  undefined (see \<open>init_egl\<close>).
\<close>

datatype outcome = Return cint | Exit cint | Undefined

text \<open>
  The dispatch loop \<open>for (i=0; i < 1; i++)\<close>, with the loop counter, \<open>err\<close> and
  \<open>sync\<close> as its state; a \<open>break\<close> returns the state as it is.
\<close>

function dispatch_loop :: "int \<Rightarrow> converter \<Rightarrow> gl_env \<Rightarrow> GLenum \<Rightarrow> ptr \<Rightarrow> trace \<times> GLenum \<times> ptr" where
  "dispatch_loop i cvt g err sync =
     (if i < 1 then
        case use_shader (shader_program cvt) (use_program_err g) of
          (tu, r) \<Rightarrow>
        if r \<noteq> 0 then (tu @ [Libc (Printf ''use_shader() failed \<newline>'' [])], err, sync)
        else
        let t1 = tu @ [Gl (GlDispatchCompute WG_NUM_X WG_NUM_Y 1),
                       Gl (GlGetError (dispatch_err g))];
            err = dispatch_err g
        in if err \<noteq> GL_NO_ERROR then
             (t1 @ [Libc (Printf ''glDispatchCompute() error 0x%04X\<newline>'' [I (uint err)])],
              err, sync)
        else
        let sync = fence_sync_res g;
            t2 = t1 @ [Gl (GlMemoryBarrier GL_ALL_BARRIER_BITS),
                       Gl (GlFenceSync GL_SYNC_GPU_COMMANDS_COMPLETE sync)]
        in case dispatch_loop (i + 1) cvt g err sync of
             (t3, err', sync') \<Rightarrow> (t2 @ t3, err', sync')
      else ([], err, sync))"
  by pat_completeness auto
termination
  by (relation "measure (\<lambda>(i, cvt, g, err, sync). nat (1 - i))") auto

text \<open>Mapping the output buffer and writing it to the file.\<close>

definition main_output :: "converter \<Rightarrow> string \<Rightarrow> long \<Rightarrow> gl_env \<Rightarrow> write_env \<Rightarrow> trace" where
  "main_output cvt out_name data_out_size g w =
     (let data = map_buffer_res g;
          t0 = [Gl (GlBindBuffer GL_SHADER_STORAGE_BUFFER (bos_at cvt bo_out)),
                Gl (GlMapBufferRange GL_SHADER_STORAGE_BUFFER 0 data_out_size GL_MAP_READ_BIT data)]
      in if data = NULL then
           t0 @ [Gl (GlGetError (map_buffer_err g)),
                 Libc (Printf ''glMapBufferRange(out) error 0x%04X\<newline>''
                         [I (uint (map_buffer_err g))])]
         else
           case write_output_file out_name data data_out_size w of
             (tw, n) \<Rightarrow>
               t0 @ tw
                  @ (if n = data_out_size then
                       [Libc (Printf ''%s: %ld bytes written\<newline>''
                                [S out_name, I (sint data_out_size)])]
                     else [])
                  @ [Gl (GlUnmapBuffer GL_COPY_WRITE_BUFFER)])"

text \<open>The label \<open>err_buffs\<close>: the clean-up that ends \<open>main\<close>.\<close>

definition err_buffs :: "converter \<Rightarrow> ptr \<Rightarrow> trace" where
  "err_buffs cvt p_data_in =
     [Gl (GlDeleteBuffers bo_num (bos cvt))] @ free_shader cvt @ deinit_egl cvt
       @ [Libc (Free p_data_in)]"

text \<open>
  \<open>main\<close> from \<open>glGenBuffers\<close> to its end. The cast \<open>(GLsizei)\<close> cuts a \<open>long\<close> to
  32 bits; the result is widened again for the \<open>GLsizeiptr\<close> parameter. The timeout
  \<open>100*1000\<close> is computed in \<open>int\<close> and widened to \<open>GLuint64\<close>.
\<close>

definition main_gl :: "converter \<Rightarrow> ptr \<Rightarrow> long \<Rightarrow> long \<Rightarrow> string \<Rightarrow> env \<Rightarrow> trace \<times> outcome" where
  "main_gl cvt0 p_data_in data_in_size data_out_size out_name e =
     (let g = gl e;
          cvt = cvt0\<lparr>bos := gen_buffers_res g\<rparr>;
          t0 = [Gl (GlGenBuffers bo_num (bos cvt)),
                Gl (GlBindBuffer GL_SHADER_STORAGE_BUFFER (bos_at cvt bo_in)),
                Gl (GlBufferData GL_SHADER_STORAGE_BUFFER (scast (ucast data_in_size :: cint))
                      p_data_in GL_STREAM_DRAW),
                Gl (GlGetError (buffer_in_err g))];
          err = buffer_in_err g
      in if err \<noteq> GL_NO_ERROR then
           (t0 @ [Libc (Printf ''glBufferData(in, size=%ld) error 0x%04X\<newline>''
                          [I (sint data_in_size), I (uint err)])]
               @ err_buffs cvt p_data_in,
            Return err)
      else
      let t1 = t0 @ [Gl (GlBindBuffer GL_SHADER_STORAGE_BUFFER (bos_at cvt bo_out)),
                     Gl (GlBufferData GL_SHADER_STORAGE_BUFFER
                           (scast (ucast data_out_size :: cint)) NULL GL_STREAM_READ),
                     Gl (GlGetError (buffer_out_err g))];
          err = buffer_out_err g
      in if err \<noteq> GL_NO_ERROR then
           (t1 @ [Libc (Printf ''glBufferData(out, size=%ld) error 0x%04X\<newline>''
                          [I (sint data_out_size), I (uint err)])]
               @ err_buffs cvt p_data_in,
            Return err)
      else
      let t2 = t1 @ [Gl (GlBindBufferBase GL_SHADER_STORAGE_BUFFER 0 (bos_at cvt bo_in)),
                     Gl (GlBindBufferBase GL_SHADER_STORAGE_BUFFER 1 (bos_at cvt bo_out))]
      in case dispatch_loop 0 cvt g err (sync_uninit e) of
           (t3, err, sync) \<Rightarrow>
             (t2 @ t3
                 @ [Gl (GlClientWaitSync sync GL_SYNC_FLUSH_COMMANDS_BIT
                          (scast ((100 :: cint) * 1000)))]
                 @ main_output cvt out_name data_out_size g (out_file e)
                 @ err_buffs cvt p_data_in,
              Return err))"

text \<open>
  \<open>main\<close> once the two operands are known. The product \<open>4 * data_in_size\<close> is a
  \<open>long\<close>; where C leaves its overflow undefined the model wraps around.
\<close>

definition main_run :: "string \<Rightarrow> string \<Rightarrow> env \<Rightarrow> trace \<times> outcome" where
  "main_run in_name out_name e =
     (let cvt = (cvt_uninit e)\<lparr>shader_fname := SHADER_FNAME\<rparr>
      in case read_input_bin_file in_name (p_data_in_uninit e) (in_file e) of
           (t0, data_in_size, p_data_in) \<Rightarrow>
      if sint data_in_size \<le> 0 then
        (t0 @ [Libc (Printf (''Failed to read input file '' @ dq @ ''%s'' @ dq @ ''\<newline>'')
                       [S in_name])],
         Return (- 1))
      else
      let data_out_size = 4 * data_in_size
      in case init_egl cvt RENDER_NODE_FNAME (egl e) of
           (t1, cvt, None) \<Rightarrow> (t0 @ t1, Undefined)
         | (t1, cvt, Some r) \<Rightarrow>
      if r \<noteq> 0 then
        (t0 @ t1 @ [Libc (Printf ''EGL initialization failed\<newline>'' [])], Exit EXIT_FAILURE)
      else
      case init_shader cvt (shader e) of
        (t2, cvt, r) \<Rightarrow>
      if r \<noteq> 0 then
        (t0 @ t1 @ t2 @ [Libc (Printf ''Shader creation failed\<newline>'' [])], Exit EXIT_FAILURE)
      else
      case main_gl cvt p_data_in data_in_size data_out_size out_name e of
        (t3, res) \<Rightarrow> (t0 @ t1 @ t2 @ t3, res))"

text \<open>
  \<open>main permute argv0 args\<close>, for the argument vector \<open>argv0 # args\<close>; \<open>permute\<close>
  says which \<open>getopt\<close> the program is linked with.
\<close>

definition main :: "bool \<Rightarrow> string \<Rightarrow> string list \<Rightarrow> env \<Rightarrow> trace \<times> outcome" where
  "main permute argv0 args e =
     (case main_opts permute argv0 (- 1) \<lparr>unscanned = args, nextchar = [], nonopts = []\<rparr> of
        (t, Inl r) \<Rightarrow> (t, Return r)
      | (t, Inr st) \<Rightarrow>
          let operands = nonopts st @ unscanned st
          in if length operands \<noteq> 2 then
               (t @ [Libc (Printf ''Give input and output files\<newline>'' [])], Return (- 1))
             else
               case main_run (operands ! 0) (operands ! 1) e of
                 (t', res) \<Rightarrow> (t @ t', res))"

subsection \<open>Resources held along a trace\<close>

text \<open>
  The four resources of \<open>init_egl\<close>: the descriptor of the render node, the GBM
  device, the EGL display and the EGL context. A call that returns one of them
  acquires it (a failed call acquires nothing); the matching call of the tear-down
  releases it. \<open>held tr st\<close> runs a trace against the stack \<open>st\<close> of resources held:
  an acquisition pushes, a release must name the resource on top and pops it, and a
  release of anything else is an error (\<open>None\<close>). So \<open>held tr [] = Some []\<close> says
  that the trace releases exactly what it acquired, in reverse order.
\<close>

datatype resource = RFd cint | RGbm ptr | RDpy ptr | RCtx ptr

datatype res_op = Acq resource | Rel resource

fun resource_op :: "event \<Rightarrow> res_op option" where
  "resource_op (Libc (Open path flags r)) = (if 0 \<le> sint r then Some (Acq (RFd r)) else None)"
| "resource_op (Egl (GbmCreateDevice f g)) = (if g \<noteq> NULL then Some (Acq (RGbm g)) else None)"
| "resource_op (Egl (EglGetPlatformDisplay p g d)) =
     (if d \<noteq> NULL then Some (Acq (RDpy d)) else None)"
| "resource_op (Egl (EglCreateContext d cfg c)) =
     (if c \<noteq> EGL_NO_CONTEXT then Some (Acq (RCtx c)) else None)"
| "resource_op (Libc (Close f)) = Some (Rel (RFd f))"
| "resource_op (Egl (GbmDeviceDestroy g)) = Some (Rel (RGbm g))"
| "resource_op (Egl (EglTerminate d)) = Some (Rel (RDpy d))"
| "resource_op (Egl (EglDestroyContext d c)) = Some (Rel (RCtx c))"
| "resource_op ev = None"

fun held :: "trace \<Rightarrow> resource list \<Rightarrow> resource list option" where
  "held [] st = Some st"
| "held (ev # tr) st =
     (case resource_op ev of
        None \<Rightarrow> held tr st
      | Some (Acq r) \<Rightarrow> held tr (r # st)
      | Some (Rel r) \<Rightarrow>
          (case st of [] \<Rightarrow> None | r0 # rest \<Rightarrow> if r = r0 then held tr rest else None))"

subsection \<open>Sample answers of the libraries\<close>

text \<open>
  Concrete answers on which the model is run. \<open>sample_read n k\<close> is a file of
  \<open>n\<close> bytes of which \<open>fread\<close> delivers \<open>k\<close>; the other records describe a system
  on which everything succeeds.
\<close>

definition sample_read :: "long \<Rightarrow> size_t \<Rightarrow> read_env" where
  "sample_read n k = \<lparr>fopen_res = 7, ftell_res = n, malloc_res = 9, fread_res = k\<rparr>"

definition sample_shader_file :: read_env where
  "sample_shader_file = \<lparr>fopen_res = 7, ftell_res = 2048, malloc_res = 10, fread_res = 2048\<rparr>"

definition sample_egl :: egl_env where
  "sample_egl = \<lparr>open_res = 3, gbm_create_device_res = 11, get_platform_display_res = 12,
     initialize_res = 1, egl_major = 1, egl_minor = 5,
     query_string_res = Some ''EGL_KHR_create_context EGL_KHR_surfaceless_context'',
     choose_count_res = 1, choose_count_n = 4, choose_config_res = 1, choose_config_cfg = 13,
     choose_config_err = 0x3000, bind_api_res = 1, bind_api_err = 0x3000,
     create_context_res = 14, make_current_res = 1, make_current_err = 0x3000,
     gl_major = 3, gl_minor = 1\<rparr>"

definition sample_converter :: converter where
  "sample_converter = \<lparr>fd = 0, gbm = 0, egl_dpy = 0, core_ctx = 0, bos = (0, 0), p_in = 0,
     p_out = 0, shader_program = 0, compute_shader = 0, shader_fname = SHADER_FNAME\<rparr>"

definition sample_shader :: shader_env where
  "sample_shader = \<lparr>shader_src_uninit = 0, shader_file = sample_shader_file,
     create_shader_res = 1, create_shader_err = 0, shader_source_err = 0, compile_status = 1,
     info_log_length = 0, log_malloc_res = 21, info_log = [], info_log_err = 0,
     create_program_res = 2, create_program_err = 0, attach_err = 0, link_err = 0\<rparr>"

definition sample_gl :: gl_env where
  "sample_gl = \<lparr>gen_buffers_res = (1, 2), buffer_in_err = 0, buffer_out_err = 0,
     use_program_err = 0, dispatch_err = 0, fence_sync_res = 31, map_buffer_res = 32,
     map_buffer_err = 0\<rparr>"

definition sample_write :: write_env where
  "sample_write = \<lparr>wfopen_res = 8, fwrite_res = 400\<rparr>"

definition sample_env :: env where
  "sample_env = \<lparr>cvt_uninit = sample_converter, p_data_in_uninit = 0, sync_uninit = 48879,
     in_file = sample_read 100 100, egl = sample_egl, shader = sample_shader, gl = sample_gl,
     out_file = sample_write\<rparr>"

subsection \<open>The calls that carry the image\<close>

text \<open>
  \<open>data_calls\<close> keeps, in order, the calls of a trace that size, fill, process, wait
  for, map or write out the image: \<open>glBufferData\<close>, \<open>glUseProgram\<close>,
  \<open>glDispatchCompute\<close>, \<open>glFenceSync\<close>, \<open>glClientWaitSync\<close>, \<open>glMapBufferRange\<close>,
  \<open>fopen\<close> for writing and \<open>fwrite\<close>.
\<close>

fun is_data_call :: "event \<Rightarrow> bool" where
  "is_data_call (Gl (GlBufferData t n p u)) = True"
| "is_data_call (Gl (GlUseProgram p)) = True"
| "is_data_call (Gl (GlDispatchCompute x y z)) = True"
| "is_data_call (Gl (GlFenceSync c s)) = True"
| "is_data_call (Gl (GlClientWaitSync s f t)) = True"
| "is_data_call (Gl (GlMapBufferRange t off len a p)) = True"
| "is_data_call (Libc (Fopen name mode fp)) = (mode = ''wb'')"
| "is_data_call (Libc (Fwrite p sz n fp r)) = True"
| "is_data_call ev = False"

definition data_calls :: "trace \<Rightarrow> trace" where
  "data_calls tr = filter is_data_call tr"

text \<open>The calls that write the output file.\<close>

fun is_file_output :: "event \<Rightarrow> bool" where
  "is_file_output (Libc (Fopen name mode fp)) = (mode = ''wb'')"
| "is_file_output (Libc (Fwrite p sz n fp r)) = True"
| "is_file_output ev = False"

text \<open>
  Three variations of the sample system: \<open>glUseProgram\<close> raises
  \<open>GL_INVALID_OPERATION\<close> (as it does for a program whose link failed, which
  \<open>init_shader\<close> does not notice because \<open>glLinkProgram\<close> reports that through the
  link status and not through \<open>glGetError\<close>); the output file cannot be opened;
  \<open>glMapBufferRange\<close> returns \<open>NULL\<close>.
\<close>

definition env_use_program_fails :: env where
  "env_use_program_fails = sample_env\<lparr>gl := sample_gl\<lparr>use_program_err := 0x0502\<rparr>\<rparr>"

definition env_output_unwritable :: env where
  "env_output_unwritable = sample_env\<lparr>out_file := sample_write\<lparr>wfopen_res := 0\<rparr>\<rparr>"

definition env_map_fails :: env where
  "env_map_fails = sample_env\<lparr>gl := sample_gl\<lparr>map_buffer_res := 0, map_buffer_err := 0x0505\<rparr>\<rparr>"

section \<open>Properties\<close>

subsection \<open>File helpers\<close>

lemma sample_read_sel [simp]:
  "fopen_res (sample_read n k) = 7" "ftell_res (sample_read n k) = n"
  "malloc_res (sample_read n k) = 9" "fread_res (sample_read n k) = k"
  by (simp_all add: sample_read_def)

text \<open>
  Claim C7. \<open>read_input_file\<close> opens the file in the mode it was given, seeks to
  the end and asks for the position to get the size, returns a non-positive value
  (leaving \<open>*data\<close> alone) whenever that size is non-positive or \<open>fread\<close> returns
  a count other than the size, frees the buffer and closes the file as its last two
  calls on the short-read path, and on success returns the size with \<open>*data\<close> set
  to the buffer that \<open>malloc\<close> returned and \<open>fread\<close> filled, which it has not freed.
\<close>

theorem read_input_file_contract:
  assumes "read_input_file fname data type e = (tr, r, data')"
  shows "hd tr = Libc (Fopen fname type (fopen_res e))
    \<and> (fopen_res e \<noteq> NULL \<longrightarrow>
         prefix [Libc (Fopen fname type (fopen_res e)),
                 Libc (Fseek (fopen_res e) 0 SEEK_END),
                 Libc (Ftell (fopen_res e) (ftell_res e))] tr)
    \<and> (sint (ftell_res e) \<le> 0 \<or> fread_res e \<noteq> ftell_res e \<longrightarrow> sint r \<le> 0 \<and> data' = data)
    \<and> (fopen_res e \<noteq> NULL \<and> 0 < sint (ftell_res e) \<and> malloc_res e \<noteq> NULL
          \<and> fread_res e \<noteq> ftell_res e \<longrightarrow>
         suffix [Libc (Fread (malloc_res e) 1 (ftell_res e) (fopen_res e) (fread_res e)),
                 Libc (Free (malloc_res e)), Libc (Fclose (fopen_res e))] tr)
    \<and> (fopen_res e \<noteq> NULL \<and> 0 < sint (ftell_res e) \<and> malloc_res e \<noteq> NULL
          \<and> fread_res e = ftell_res e \<longrightarrow> r = ftell_res e \<and> data' = malloc_res e)
    \<and> (0 < sint r \<longrightarrow>
         r = ftell_res e \<and> data' = malloc_res e \<and> data' \<noteq> NULL
         \<and> Libc (Malloc r data') \<in> set tr
         \<and> Libc (Fread data' 1 r (fopen_res e) r) \<in> set tr
         \<and> Libc (Free data') \<notin> set tr)"
  using assms
  by (auto simp: read_input_file_def Let_def err_seek_def err_fread_def suffix_def
      split: if_splits)

theorem read_input_file_contract_witness:
  "read_input_file ''in.raw'' 0 ''rb'' (sample_read 100 100)
     = ([Libc (Fopen ''in.raw'' ''rb'' 7), Libc (Fseek 7 0 SEEK_END), Libc (Ftell 7 100),
         Libc (Fseek 7 0 SEEK_SET), Libc (Malloc 100 9), Libc (Fread 9 1 100 7 100),
         Libc (Fclose 7)], 100, 9)
   \<and> Libc (Free 9) \<notin> set (fst (read_input_file ''in.raw'' 0 ''rb'' (sample_read 100 100)))
   \<and> fst (snd (read_input_file ''in.raw'' 0 ''rb'' (sample_read 100 60))) = - 1
   \<and> suffix [Libc (Fread 9 1 100 7 60), Libc (Free 9), Libc (Fclose 7)]
        (fst (read_input_file ''in.raw'' 0 ''rb'' (sample_read 100 60)))
   \<and> sint (fst (snd (read_input_file ''in.raw'' 0 ''rb'' (sample_read 0 0)))) \<le> 0"
proof -
  have ok: "read_input_file ''in.raw'' 0 ''rb'' (sample_read 100 100)
     = ([Libc (Fopen ''in.raw'' ''rb'' 7), Libc (Fseek 7 0 SEEK_END), Libc (Ftell 7 100),
         Libc (Fseek 7 0 SEEK_SET), Libc (Malloc 100 9), Libc (Fread 9 1 100 7 100),
         Libc (Fclose 7)], 100, 9)"
    by (simp add: read_input_file_def NULL_def Let_def)
  have short: "read_input_file ''in.raw'' 0 ''rb'' (sample_read 100 60)
     = ([Libc (Fopen ''in.raw'' ''rb'' 7), Libc (Fseek 7 0 SEEK_END), Libc (Ftell 7 100),
         Libc (Fseek 7 0 SEEK_SET), Libc (Malloc 100 9), Libc (Fread 9 1 100 7 60),
         Libc (Free 9), Libc (Fclose 7)], - 1, 0)"
    by (simp add: read_input_file_def NULL_def Let_def err_fread_def
        err_seek_def)
  have empty: "read_input_file ''in.raw'' 0 ''rb'' (sample_read 0 0)
     = ([Libc (Fopen ''in.raw'' ''rb'' 7), Libc (Fseek 7 0 SEEK_END), Libc (Ftell 7 0),
         Libc (Fseek 7 0 SEEK_SET), Libc (Fclose 7)], - 1, 0)"
    by (simp add: read_input_file_def NULL_def Let_def err_seek_def)
  show ?thesis
    using read_input_file_contract [OF ok] read_input_file_contract [OF short]
      read_input_file_contract [OF empty]
    by (simp add: NULL_def ok short empty)
qed

subsection \<open>EGL set-up and tear-down\<close>

lemmas err_labels = err_gbm_def err_egl_dpy_def err_egl_ctx_def err_egl_make_current_def

lemmas egl_consts = EGL_TRUE_def NULL_def EGL_NO_CONTEXT_def

lemma init_egl_sample:
  "init_egl sample_converter RENDER_NODE_FNAME sample_egl =
     ([Libc (Open RENDER_NODE_FNAME O_RDWR 3), Egl (GbmCreateDevice 3 11),
       Egl (EglGetPlatformDisplay EGL_PLATFORM_GBM_MESA 11 12),
       Egl (EglInitialize 12 1),
       Libc (Printf ''EGL version: %d.%d\<newline>'' [I 1, I 5]),
       Egl (EglQueryString 12 EGL_EXTENSIONS
             (Some ''EGL_KHR_create_context EGL_KHR_surfaceless_context'')),
       Egl (EglChooseConfig 12 False 0 1),
       Libc (Printf ''eglChooseConfig(): %d matching configs available\<newline>'' [I 4]),
       Egl (EglChooseConfig 12 True 1 1),
       Egl (EglBindAPI EGL_OPENGL_ES_API 1), Egl (EglCreateContext 12 13 14),
       Egl (EglMakeCurrent 12 14 1),
       Gl (GlGetIntegerv GL_MAJOR_VERSION 3), Gl (GlGetIntegerv GL_MINOR_VERSION 1),
       Libc (Printf ''*** EGL version: %d.%d\<newline>'' [I 3, I 1])],
      sample_converter\<lparr>fd := 3, gbm := 11, egl_dpy := 12, core_ctx := 14\<rparr>,
      Some 0)"
  by (simp add: init_egl_def sample_egl_def sample_converter_def Let_def egl_consts)

lemma init_egl_sample_fail:
  "init_egl sample_converter RENDER_NODE_FNAME (sample_egl\<lparr>make_current_res := 0\<rparr>) =
     ([Libc (Open RENDER_NODE_FNAME O_RDWR 3), Egl (GbmCreateDevice 3 11),
       Egl (EglGetPlatformDisplay EGL_PLATFORM_GBM_MESA 11 12),
       Egl (EglInitialize 12 1),
       Libc (Printf ''EGL version: %d.%d\<newline>'' [I 1, I 5]),
       Egl (EglQueryString 12 EGL_EXTENSIONS
             (Some ''EGL_KHR_create_context EGL_KHR_surfaceless_context'')),
       Egl (EglChooseConfig 12 False 0 1),
       Libc (Printf ''eglChooseConfig(): %d matching configs available\<newline>'' [I 4]),
       Egl (EglChooseConfig 12 True 1 1),
       Egl (EglBindAPI EGL_OPENGL_ES_API 1), Egl (EglCreateContext 12 13 14),
       Egl (EglMakeCurrent 12 14 0), Egl (EglGetError 0x3000),
       Libc (Printf ''init_opengl: eglMakeCurrent() failed: %d\<newline>'' [I 12288]),
       Egl (EglDestroyContext 12 14), Egl (EglTerminate 12),
       Egl (GbmDeviceDestroy 11), Libc (Close 3)],
      sample_converter\<lparr>fd := 3, gbm := 11, egl_dpy := 12, core_ctx := 14\<rparr>,
      Some (- 1))"
  by (simp add: init_egl_def sample_egl_def sample_converter_def Let_def egl_consts err_labels)

text \<open>
  Claim C4. Whenever \<open>init_egl\<close> returns a value other than \<open>0\<close>, that value is
  \<open>-1\<close>, and its trace releases exactly the resources it acquired (descriptor, GBM
  device, EGL display, EGL context), each once, in reverse order of acquisition:
  nothing is leaked and nothing that was not acquired is released.
\<close>

theorem init_egl_unwinds:
  assumes "init_egl conv0 render_node e = (tr, conv, Some rc)" and "rc \<noteq> 0"
  shows "rc = - 1 \<and> held tr [] = Some []"
  using assms
  by (auto simp: init_egl_def Let_def err_labels split: if_splits option.splits)

theorem init_egl_unwinds_witness:
  "snd (snd (init_egl sample_converter RENDER_NODE_FNAME (sample_egl\<lparr>make_current_res := 0\<rparr>)))
      = Some (- 1)
   \<and> (- 1 :: cint) \<noteq> 0
   \<and> held (fst (init_egl sample_converter RENDER_NODE_FNAME
                   (sample_egl\<lparr>make_current_res := 0\<rparr>))) [] = Some []"
  using init_egl_unwinds [OF init_egl_sample_fail]
  by (simp add: init_egl_sample_fail egl_consts)

text \<open>
  Claim C8. \<open>deinit_egl\<close> destroys the context, then terminates the display, then
  destroys the GBM device, then closes the descriptor. After a successful
  \<open>init_egl\<close> the resources were acquired in the opposite order, so that the
  tear-down releases them all, last acquired first.
\<close>

theorem deinit_egl_order:
  assumes "init_egl conv0 render_node e = (tr, conv, Some 0)"
  shows "deinit_egl conv =
       [Egl (EglDestroyContext (egl_dpy conv) (core_ctx conv)), Egl (EglTerminate (egl_dpy conv)),
        Egl (GbmDeviceDestroy (gbm conv)), Libc (Close (fd conv))]
     \<and> held tr [] =
         Some [RCtx (core_ctx conv), RDpy (egl_dpy conv), RGbm (gbm conv), RFd (fd conv)]
     \<and> held (tr @ deinit_egl conv) [] = Some []"
  using assms
  by (auto simp: init_egl_def Let_def deinit_egl_def err_labels
      split: if_splits option.splits)

theorem deinit_egl_order_witness:
  "snd (snd (init_egl sample_converter RENDER_NODE_FNAME sample_egl)) = Some 0
   \<and> deinit_egl (fst (snd (init_egl sample_converter RENDER_NODE_FNAME sample_egl))) =
       [Egl (EglDestroyContext 12 14), Egl (EglTerminate 12), Egl (GbmDeviceDestroy 11),
        Libc (Close 3)]
   \<and> held (fst (init_egl sample_converter RENDER_NODE_FNAME sample_egl)) [] =
       Some [RCtx 14, RDpy 12, RGbm 11, RFd 3]"
  using deinit_egl_order [OF init_egl_sample]
  by (simp add: init_egl_sample deinit_egl_def egl_consts)

subsection \<open>Command line\<close>

declare main_opts.simps [simp del]

lemma opt_lookup_fh:
  "opt_lookup ''f:h'' c =
     (if c = CHR ''f'' then Some True else if c = CHR ''h'' then Some False else None)"
  by auto

lemma getopt_short_codes:
  "fst (getopt_short ''f:h'' c cs rest sk) \<in> {of_char CHR ''?'', of_char CHR ''f'', of_char CHR ''h''}"
  by (simp add: getopt_short_def opt_lookup_fh del: opt_lookup.simps split: list.splits)

lemma getopt_scan_codes:
  "fst (getopt_scan p ''f:h'' xs sk) \<in> {- 1, of_char CHR ''?'', of_char CHR ''f'', of_char CHR ''h''}"
proof (induction xs arbitrary: sk)
  case Nil
  then show ?case by simp
next
  case (Cons a xs)
  from getopt_short_codes [of "hd (tl a)" "tl (tl a)" xs sk] Cons.IH [of "sk @ [a]"]
  show ?case by (auto simp del: opt_lookup.simps)
qed

lemma getopt_codes:
  "fst (getopt p ''f:h'' st) \<in> {- 1, of_char CHR ''?'', of_char CHR ''f'', of_char CHR ''h''}"
  using getopt_scan_codes [of p "unscanned st" "nonopts st"]
    getopt_short_codes [of "hd (nextchar st)" "tl (nextchar st)" "unscanned st" "nonopts st"]
  by (cases "nextchar st") (simp_all add: getopt_def del: opt_lookup.simps)

text \<open>The option loop prints at most one line, and only when it leaves \<open>main\<close>.\<close>

lemma main_opts_cases:
  "(\<exists>st'. main_opts p a0 b st = ([], Inr st')) \<or>
   main_opts p a0 b st = ([Libc (Printf ''bad bayer order\<newline>'' [])], Inl (- 1)) \<or>
   main_opts p a0 b st = ([Libc (Printf USAGE [S a0])], Inl 0)"
proof (induction p a0 b st rule: main_opts.induct)
  case (1 permute argv0 b_ord st)
  obtain c oa st' where g: "getopt permute ''f:h'' st = (c, oa, st')"
    by (cases "getopt permute ''f:h'' st") auto
  show ?case
    using "1.IH"(2) [OF g [symmetric] refl]
    by (subst (1 2 3) main_opts.simps) (auto simp: g parse_bayer_order_def)
qed

text \<open>
  Claim C6. \<open>parse_bayer_order\<close> returns a negative value for every argument, so
  whenever the first call of \<open>getopt\<close> reports \<open>-f\<close>, the program prints
  "bad bayer order" and \<open>main\<close> returns \<open>-1\<close>; that line is the whole trace, so no
  file has been opened, read or written.
\<close>

theorem bayer_order_always_rejected:
  "sint (fst (parse_bayer_order p bo)) < 0 \<and>
   (fst (getopt permute ''f:h'' \<lparr>unscanned = args, nextchar = [], nonopts = []\<rparr>)
      = of_char CHR ''f'' \<longrightarrow>
    main permute argv0 args e = ([Libc (Printf ''bad bayer order\<newline>'' [])], Return (- 1)))"
proof -
  obtain c oa st' where
    g: "getopt permute ''f:h'' \<lparr>unscanned = args, nextchar = [], nonopts = []\<rparr> = (c, oa, st')"
    using prod_cases3 by blast
  show ?thesis
    unfolding main_def
    by (subst main_opts.simps) (simp add: g parse_bayer_order_def)
qed

lemma getopt_sample_f:
  "getopt True ''f:h'' \<lparr>unscanned = [''-f'', ''RGGB'', ''in.raw'', ''out.rgba''], nextchar = [],
     nonopts = []\<rparr>
   = (of_char CHR ''f'', Some ''RGGB'',
      \<lparr>unscanned = [''in.raw'', ''out.rgba''], nextchar = [], nonopts = []\<rparr>)"
  by (simp add: getopt_def getopt_short_def is_option_def)

theorem bayer_order_always_rejected_witness:
  "fst (getopt True ''f:h'' \<lparr>unscanned = [''-f'', ''RGGB'', ''in.raw'', ''out.rgba''],
          nextchar = [], nonopts = []\<rparr>) = of_char CHR ''f''
   \<and> main True ''debayer'' [''-f'', ''RGGB'', ''in.raw'', ''out.rgba''] sample_env
       = ([Libc (Printf ''bad bayer order\<newline>'' [])], Return (- 1))"
  using bayer_order_always_rejected [of "Some ''RGGB''" "- 1" True
      "[''-f'', ''RGGB'', ''in.raw'', ''out.rgba'']" "''debayer''" sample_env]
  by (simp add: getopt_sample_f)

text \<open>
  Claim C5 says that \<open>-h\<close> prints the usage text and exits with \<open>0\<close> whatever
  else is on the command line. It does not when \<open>-f\<close> comes first: the loop handles
  the options in order and leaves \<open>main\<close> at the first \<open>-f\<close>.
\<close>

theorem help_after_bayer_order_counterexample:
  "''-h'' \<in> set [''-f'', ''RGGB'', ''-h''] \<and>
   main True ''debayer'' [''-f'', ''RGGB'', ''-h''] sample_env
     = ([Libc (Printf ''bad bayer order\<newline>'' [])], Return (- 1)) \<and>
   main True ''debayer'' [''-f'', ''RGGB'', ''-h''] sample_env
     \<noteq> ([Libc (Printf USAGE [S ''debayer''])], Return 0)"
  unfolding main_def
  by (subst (1 2) main_opts.simps)
     (simp add: getopt_def getopt_short_def is_option_def parse_bayer_order_def)

lemma main_opts_cong:
  "getopt p ''f:h'' st1 = getopt p ''f:h'' st2 \<Longrightarrow> main_opts p a0 b st1 = main_opts p a0 b st2"
  by (subst (1 2) main_opts.simps) simp

lemma main_opts_cluster:
  assumes "CHR ''f'' \<notin> set cs"
  shows "main_opts p a0 b \<lparr>unscanned = rest, nextchar = cs, nonopts = sk\<rparr> =
     (if CHR ''h'' \<in> set cs then ([Libc (Printf USAGE [S a0])], Inl 0)
      else main_opts p a0 b \<lparr>unscanned = rest, nextchar = [], nonopts = sk\<rparr>)"
  using assms
proof (induction cs)
  case Nil
  then show ?case by simp
next
  case (Cons c cs)
  then have c: "c \<noteq> CHR ''f''" and cs: "CHR ''f'' \<notin> set cs" by auto
  show ?case
  proof (cases "c = CHR ''h''")
    case True
    then show ?thesis
      by (subst main_opts.simps) (simp add: getopt_def getopt_short_def)
  next
    case False
    have "main_opts p a0 b \<lparr>unscanned = rest, nextchar = c # cs, nonopts = sk\<rparr>
        = main_opts p a0 b \<lparr>unscanned = rest, nextchar = cs, nonopts = sk\<rparr>"
      using c False
      by (subst main_opts.simps)
         (simp add: getopt_def getopt_short_def opt_lookup_fh del: opt_lookup.simps)
    with Cons.IH [OF cs] False show ?thesis by simp
  qed
qed

lemma getopt_enter_cluster:
  assumes "is_option a" and "a \<noteq> ''--''"
  shows "getopt p os \<lparr>unscanned = a # rest, nextchar = [], nonopts = sk\<rparr>
       = getopt p os \<lparr>unscanned = rest, nextchar = tl a, nonopts = sk\<rparr>"
proof -
  from assms(1) obtain d c cs where "a = d # c # cs"
    by (auto simp: is_option_def split: list.splits)
  with assms show ?thesis by (auto simp: getopt_def)
qed

lemma getopt_skip_operand:
  assumes "\<not> is_option a" and "a \<noteq> ''--''"
  shows "getopt True os \<lparr>unscanned = a # rest, nextchar = [], nonopts = sk\<rparr>
       = getopt True os \<lparr>unscanned = rest, nextchar = [], nonopts = sk @ [a]\<rparr>"
  using assms by (simp add: getopt_def)


lemma main_opts_help:
  assumes "\<forall>a\<in>set pre. a \<noteq> ''--'' \<and> (is_option a \<longrightarrow> CHR ''f'' \<notin> set a)
             \<and> (\<not> is_option a \<longrightarrow> permute)"
  shows "main_opts permute a0 b \<lparr>unscanned = pre @ ''-h'' # post, nextchar = [], nonopts = sk\<rparr>
       = ([Libc (Printf USAGE [S a0])], Inl 0)"
  using assms
proof (induction pre arbitrary: sk)
  case Nil
  show ?case
    by (subst main_opts.simps) (simp add: getopt_def getopt_short_def is_option_def)
next
  case (Cons a pre)
  then have a: "a \<noteq> ''--''" and rest: "\<forall>a\<in>set pre. a \<noteq> ''--''
      \<and> (is_option a \<longrightarrow> CHR ''f'' \<notin> set a) \<and> (\<not> is_option a \<longrightarrow> permute)"
    by auto
  show ?case
  proof (cases "is_option a")
    case True
    with Cons.prems have "CHR ''f'' \<notin> set a" by simp
    then have nf: "CHR ''f'' \<notin> set (tl a)"
      by (cases a) auto
    have "main_opts permute a0 b
            \<lparr>unscanned = (a # pre) @ ''-h'' # post, nextchar = [], nonopts = sk\<rparr>
        = main_opts permute a0 b
            \<lparr>unscanned = pre @ ''-h'' # post, nextchar = tl a, nonopts = sk\<rparr>"
      using main_opts_cong [OF getopt_enter_cluster [OF True a]] by simp
    also have "\<dots> = ([Libc (Printf USAGE [S a0])], Inl 0)"
      using Cons.IH [OF rest] by (simp add: main_opts_cluster [OF nf])
    finally show ?thesis .
  next
    case False
    with Cons.prems have p: "permute" by simp
    have "main_opts permute a0 b
            \<lparr>unscanned = (a # pre) @ ''-h'' # post, nextchar = [], nonopts = sk\<rparr>
        = main_opts permute a0 b
            \<lparr>unscanned = pre @ ''-h'' # post, nextchar = [], nonopts = sk @ [a]\<rparr>"
      using main_opts_cong [OF getopt_skip_operand [OF False a]] p by simp
    with Cons.IH [OF rest] show ?thesis by simp
  qed
qed

text \<open>
  Claim C5, amended. If every argument before \<open>-h\<close> is other than \<open>--\<close>, and is
  either an option argument without the letter \<open>f\<close> or (with a permuting
  \<open>getopt\<close>) an operand, then the program prints the usage text and \<open>main\<close> returns
  \<open>0\<close>, whatever follows \<open>-h\<close>.
\<close>

theorem help_before_bayer_order:
  assumes "\<forall>a\<in>set pre. a \<noteq> ''--'' \<and> (is_option a \<longrightarrow> CHR ''f'' \<notin> set a)
             \<and> (\<not> is_option a \<longrightarrow> permute)"
  shows "main permute argv0 (pre @ ''-h'' # post) e = ([Libc (Printf USAGE [S argv0])], Return 0)"
  by (simp add: main_def main_opts_help [OF assms])

theorem help_before_bayer_order_witness:
  "is_option ''-x'' \<and> \<not> is_option ''in.raw'' \<and> CHR ''f'' \<notin> set ''-x''
   \<and> main True ''debayer'' [''in.raw'', ''-x'', ''-h'', ''-f'', ''RGGB''] sample_env
       = ([Libc (Printf USAGE [S ''debayer''])], Return 0)"
  using help_before_bayer_order [of "[''in.raw'', ''-x'']" True "''debayer''" "[''-f'', ''RGGB'']"
      sample_env]
  by (simp add: is_option_def)

subsection \<open>The entry point\<close>

lemma sint_times4:
  fixes n :: "64 word"
  assumes "0 < sint n" and "sint n < 2 ^ 61"
  shows "sint (4 * n) = 4 * sint n"
proof -
  have "sint (4 * n) = signed_take_bit 63 (sint (4 :: 64 word) * sint n)"
    by (simp add: sint_word_ariths)
  also have "\<dots> = signed_take_bit 63 (4 * sint n)" by simp
  also have "\<dots> = 4 * sint n"
    using assms by (intro signed_take_bit_int_eq_self) simp_all
  finally show ?thesis .
qed

lemma narrow_widen:
  fixes w :: "64 word"
  assumes "- (2 ^ 31) \<le> sint w" and "sint w < 2 ^ 31"
  shows "(scast (ucast w :: 32 word) :: 64 word) = w"
proof -
  have "sint (ucast w :: 32 word) = signed_take_bit 31 (take_bit 32 (uint w))"
    by (simp add: sint_uint unsigned_ucast_eq)
  also have "\<dots> = signed_take_bit 31 (uint w)"
    by (simp add: signed_take_bit_take_bit)
  also have "\<dots> = signed_take_bit 31 (sint w)"
    by (simp add: sint_uint)
  also have "\<dots> = sint w"
    using assms by (intro signed_take_bit_int_eq_self) simp_all
  finally have "sint (ucast w :: 32 word) = sint w" .
  moreover have "(scast (ucast w :: 32 word) :: 64 word) = word_of_int (sint (ucast w :: 32 word))"
    by simp
  ultimately show ?thesis by simp
qed


lemma data_calls_simps [simp]:
  "data_calls [] = []"
  "data_calls (ev # tr) = (if is_data_call ev then ev # data_calls tr else data_calls tr)"
  "data_calls (tr @ tr') = data_calls tr @ data_calls tr'"
  by (simp_all add: data_calls_def)

lemma read_input_file_no_data:
  "mode \<noteq> ''wb'' \<Longrightarrow> data_calls (fst (read_input_file fname d mode e)) = []"
  by (simp add: read_input_file_def Let_def err_seek_def err_fread_def)

lemma init_egl_no_data: "data_calls (fst (init_egl conv0 node e)) = []"
  by (simp add: init_egl_def Let_def err_labels split: option.splits)

lemma init_shader_no_data: "data_calls (fst (init_shader conv0 e)) = []"
proof -
  obtain tr n src where
    r: "read_input_text_file (shader_fname conv0) (shader_src_uninit e) (shader_file e)
          = (tr, n, src)"
    using prod_cases3 by blast
  have "data_calls (fst (read_input_text_file (shader_fname conv0) (shader_src_uninit e)
      (shader_file e))) = []"
    by (simp add: read_input_text_file_def read_input_file_no_data)
  then have "data_calls tr = []"
    by (simp add: r)
  then show ?thesis
    by (simp add: init_shader_def r Let_def err_del_shader_def err_del_program_def)
qed

lemma dispatch_loop_once:
  "dispatch_loop 0 cvt g err sync =
     (if use_program_err g \<noteq> GL_NO_ERROR then
        ([Gl (GlUseProgram (shader_program cvt)), Gl (GlGetError (use_program_err g)),
          Libc (Printf ''use_shader() failed \<newline>'' [])], err, sync)
      else if dispatch_err g \<noteq> GL_NO_ERROR then
        ([Gl (GlUseProgram (shader_program cvt)), Gl (GlGetError (use_program_err g)),
          Gl (GlDispatchCompute WG_NUM_X WG_NUM_Y 1), Gl (GlGetError (dispatch_err g)),
          Libc (Printf ''glDispatchCompute() error 0x%04X\<newline>'' [I (uint (dispatch_err g))])],
         dispatch_err g, sync)
      else
        ([Gl (GlUseProgram (shader_program cvt)), Gl (GlGetError (use_program_err g)),
          Gl (GlDispatchCompute WG_NUM_X WG_NUM_Y 1), Gl (GlGetError (dispatch_err g)),
          Gl (GlMemoryBarrier GL_ALL_BARRIER_BITS),
          Gl (GlFenceSync GL_SYNC_GPU_COMMANDS_COMPLETE (fence_sync_res g))],
         dispatch_err g, fence_sync_res g))"
  by (simp add: use_shader_def Let_def)

lemma data_calls_main_gl:
  "data_calls (fst (main_gl cvt p n m out_name e)) =
     Gl (GlBufferData GL_SHADER_STORAGE_BUFFER (scast (ucast n :: cint)) p GL_STREAM_DRAW) #
     (if buffer_in_err (gl e) \<noteq> GL_NO_ERROR then []
      else
        Gl (GlBufferData GL_SHADER_STORAGE_BUFFER (scast (ucast m :: cint)) NULL GL_STREAM_READ) #
        (if buffer_out_err (gl e) \<noteq> GL_NO_ERROR then []
         else
           Gl (GlUseProgram (shader_program cvt)) #
           (if use_program_err (gl e) \<noteq> GL_NO_ERROR then []
            else
              Gl (GlDispatchCompute WG_NUM_X WG_NUM_Y 1) #
              (if dispatch_err (gl e) \<noteq> GL_NO_ERROR then []
               else [Gl (GlFenceSync GL_SYNC_GPU_COMMANDS_COMPLETE (fence_sync_res (gl e)))]))
           @ [Gl (GlClientWaitSync
                    (if use_program_err (gl e) = GL_NO_ERROR \<and> dispatch_err (gl e) = GL_NO_ERROR
                     then fence_sync_res (gl e) else sync_uninit e)
                    GL_SYNC_FLUSH_COMMANDS_BIT 100000),
              Gl (GlMapBufferRange GL_SHADER_STORAGE_BUFFER 0 m GL_MAP_READ_BIT
                    (map_buffer_res (gl e)))]
           @ (if map_buffer_res (gl e) = NULL then []
              else
                Libc (Fopen out_name ''wb'' (wfopen_res (out_file e))) #
                (if wfopen_res (out_file e) = NULL then []
                 else [Libc (Fwrite (map_buffer_res (gl e)) 1 m (wfopen_res (out_file e))
                               (fwrite_res (out_file e)))]))))"
  by (simp add: main_gl_def Let_def dispatch_loop_once main_output_def write_output_file_def
      err_buffs_def free_shader_def deinit_egl_def del: dispatch_loop.simps)

lemma main_gl_result:
  "snd (main_gl cvt p n m out_name e) =
     Return (if buffer_in_err (gl e) \<noteq> GL_NO_ERROR then buffer_in_err (gl e)
             else if use_program_err (gl e) \<noteq> GL_NO_ERROR then buffer_out_err (gl e)
             else if buffer_out_err (gl e) \<noteq> GL_NO_ERROR then buffer_out_err (gl e)
             else dispatch_err (gl e))"
  by (simp add: main_gl_def Let_def dispatch_loop_once del: dispatch_loop.simps)

lemma main_gl_teardown:
  "suffix (err_buffs (cvt\<lparr>bos := gen_buffers_res (gl e)\<rparr>) p) (fst (main_gl cvt p n m out_name e))"
  by (simp add: main_gl_def Let_def dispatch_loop_once suffix_def del: dispatch_loop.simps)

lemma main_reaches_gl:
  assumes "main_opts permute argv0 (- 1) \<lparr>unscanned = args, nextchar = [], nonopts = []\<rparr>
             = ([], Inr st)"
    and "nonopts st @ unscanned st = [in_name, out_name]"
    and "read_input_bin_file in_name (p_data_in_uninit e) (in_file e) = (t0, n, p)"
    and "0 < sint n"
    and "init_egl ((cvt_uninit e)\<lparr>shader_fname := SHADER_FNAME\<rparr>) RENDER_NODE_FNAME (egl e)
           = (t1, cvt1, Some 0)"
    and "init_shader cvt1 (shader e) = (t2, cvt2, 0)"
  shows "main permute argv0 args e =
           (t0 @ t1 @ t2 @ fst (main_gl cvt2 p n (4 * n) out_name e),
            snd (main_gl cvt2 p n (4 * n) out_name e))"
proof -
  have "length (nonopts st @ unscanned st) = 2"
    by (simp only: assms(2)) simp
  then have len: "length (nonopts st) + length (unscanned st) = 2"
    by simp
  have "(nonopts st @ unscanned st) ! 0 = in_name" "(nonopts st @ unscanned st) ! 1 = out_name"
    by (simp_all only: assms(2)) simp_all
  then have "main permute argv0 args e =
      (fst (main_run in_name out_name e), snd (main_run in_name out_name e))"
    using assms(1) len by (simp add: main_def Let_def split: prod.splits)
  also have "main_run in_name out_name e =
      (t0 @ t1 @ t2 @ fst (main_gl cvt2 p n (4 * n) out_name e),
       snd (main_gl cvt2 p n (4 * n) out_name e))"
    using assms(3-6) by (simp add: main_run_def Let_def split: prod.splits)
  finally show ?thesis by simp
qed

lemma data_calls_main:
  assumes "main_opts permute argv0 (- 1) \<lparr>unscanned = args, nextchar = [], nonopts = []\<rparr>
             = ([], Inr st)"
    and "nonopts st @ unscanned st = [in_name, out_name]"
    and "read_input_bin_file in_name (p_data_in_uninit e) (in_file e) = (t0, n, p)"
    and "0 < sint n"
    and "init_egl ((cvt_uninit e)\<lparr>shader_fname := SHADER_FNAME\<rparr>) RENDER_NODE_FNAME (egl e)
           = (t1, cvt1, Some 0)"
    and "init_shader cvt1 (shader e) = (t2, cvt2, 0)"
  shows "data_calls (fst (main permute argv0 args e)) =
           data_calls (fst (main_gl cvt2 p n (4 * n) out_name e))"
proof -
  have "data_calls t0 = []"
    using read_input_file_no_data [of "''rb''" in_name "p_data_in_uninit e" "in_file e"] assms(3)
    by (simp add: read_input_bin_file_def)
  moreover have "data_calls t1 = []"
    using init_egl_no_data [of "(cvt_uninit e)\<lparr>shader_fname := SHADER_FNAME\<rparr>"
        RENDER_NODE_FNAME "egl e"] assms(5)
    by simp
  moreover have "data_calls t2 = []"
    using init_shader_no_data [of cvt1 "shader e"] assms(6) by simp
  ultimately show ?thesis
    by (simp add: main_reaches_gl [OF assms])
qed

lemma file_output_is_data_call: "is_file_output ev \<Longrightarrow> is_data_call ev"
  by (cases ev rule: is_file_output.cases) simp_all

lemma file_output_of_data_calls:
  "filter is_file_output tr = filter is_file_output (data_calls tr)"
  by (induction tr) (auto simp: file_output_is_data_call)

lemma read_no_data:
  "read_input_bin_file f d e = (t, n, p) \<Longrightarrow> data_calls t = []"
  using read_input_file_no_data [of "''rb''" f d e] by (simp add: read_input_bin_file_def)

lemma init_egl_no_data': "init_egl c r e = (t, c', rc) \<Longrightarrow> data_calls t = []"
  using init_egl_no_data [of c r e] by simp

lemma init_shader_no_data': "init_shader c e = (t, c', rc) \<Longrightarrow> data_calls t = []"
  using init_shader_no_data [of c e] by simp

lemma dispatch_main_gl:
  assumes "main_gl cvt p n m out_name e = (t, r)"
    and "Gl (GlDispatchCompute x y z) \<in> set (data_calls t)"
  shows "x = WG_NUM_X \<and> y = WG_NUM_Y \<and> z = 1"
proof -
  from assms have "Gl (GlDispatchCompute x y z) \<in> set (data_calls (fst (main_gl cvt p n m out_name e)))"
    by simp
  then show ?thesis
    by (auto simp: data_calls_main_gl split: if_splits)
qed

lemma dispatch_main_run:
  assumes "main_run in_name out_name e = (t, r)"
    and "Gl (GlDispatchCompute x y z) \<in> set (data_calls t)"
  shows "x = WG_NUM_X \<and> y = WG_NUM_Y \<and> z = 1"
  using assms
  by (auto simp: main_run_def Let_def split: prod.splits option.splits if_splits
      dest!: read_no_data init_egl_no_data' init_shader_no_data' dest: dispatch_main_gl)

lemma dispatch_geometry:
  assumes "Gl (GlDispatchCompute x y z) \<in> set (fst (main permute argv0 args e))"
  shows "x = WG_NUM_X \<and> y = WG_NUM_Y \<and> z = 1"
proof -
  let ?st = "\<lparr>unscanned = args, nextchar = [], nonopts = []\<rparr>"
  from assms have d: "Gl (GlDispatchCompute x y z) \<in> set (data_calls (fst (main permute argv0 args e)))"
    by (simp add: data_calls_def)
  from main_opts_cases [of permute argv0 "- 1" ?st]
  consider st' where "main_opts permute argv0 (- 1) ?st = ([], Inr st')"
    | "main_opts permute argv0 (- 1) ?st = ([Libc (Printf ''bad bayer order\<newline>'' [])], Inl (- 1))"
    | "main_opts permute argv0 (- 1) ?st = ([Libc (Printf USAGE [S argv0])], Inl 0)"
    by blast
  then show ?thesis
  proof cases
    case 1
    with d show ?thesis
      by (auto simp: main_def Let_def split: prod.splits if_splits dest: dispatch_main_run)
  next
    case 2
    with d show ?thesis by (simp add: main_def)
  next
    case 3
    with d show ?thesis by (simp add: main_def)
  qed
qed

lemma sample_opts:
  "main_opts True ''debayer'' (- 1)
     \<lparr>unscanned = [''in.raw'', ''out.rgba''], nextchar = [], nonopts = []\<rparr>
   = ([], Inr \<lparr>unscanned = [], nextchar = [], nonopts = [''in.raw'', ''out.rgba'']\<rparr>)"
  by (subst main_opts.simps) (simp add: getopt_def is_option_def)

lemma sample_read_in:
  assumes "p_data_in_uninit e = 0" and "in_file e = sample_read 100 100"
  shows "read_input_bin_file ''in.raw'' (p_data_in_uninit e) (in_file e) =
     ([Libc (Fopen ''in.raw'' ''rb'' 7), Libc (Fseek 7 0 SEEK_END), Libc (Ftell 7 100),
       Libc (Fseek 7 0 SEEK_SET), Libc (Malloc 100 9), Libc (Fread 9 1 100 7 100),
       Libc (Fclose 7)], 100, 9)"
  by (simp add: assms read_input_bin_file_def read_input_file_def NULL_def Let_def)

lemma sample_init_egl:
  assumes "cvt_uninit e = sample_converter" and "egl e = sample_egl"
  shows "init_egl ((cvt_uninit e)\<lparr>shader_fname := SHADER_FNAME\<rparr>) RENDER_NODE_FNAME (egl e) =
     (fst (init_egl sample_converter RENDER_NODE_FNAME sample_egl),
      sample_converter\<lparr>fd := 3, gbm := 11, egl_dpy := 12, core_ctx := 14\<rparr>, Some 0)"
proof -
  have "sample_converter\<lparr>shader_fname := SHADER_FNAME\<rparr> = sample_converter"
    by (simp add: sample_converter_def)
  then show ?thesis
    by (simp add: assms init_egl_sample)
qed

lemma sample_init_shader:
  assumes "shader e = sample_shader"
  shows "init_shader (sample_converter\<lparr>fd := 3, gbm := 11, egl_dpy := 12, core_ctx := 14\<rparr>)
       (shader e) =
     ([Libc (Fopen SHADER_FNAME ''r'' 7), Libc (Fseek 7 0 SEEK_END), Libc (Ftell 7 2048),
       Libc (Fseek 7 0 SEEK_SET), Libc (Malloc 2048 10), Libc (Fread 10 1 2048 7 2048),
       Libc (Fclose 7),
       Libc (Printf (''%d bytes read from '' @ dq @ ''%s'' @ dq @ ''\<newline>'')
               [I 2048, S SHADER_FNAME]),
       Gl (GlCreateShader GL_COMPUTE_SHADER 1), Gl (GlShaderSource 1 10 2048),
       Libc (Free 10), Gl (GlGetError 0), Gl (GlCompileShader 1),
       Gl (GlGetShaderiv 1 GL_COMPILE_STATUS 1), Gl (GlCreateProgram 2),
       Gl (GlAttachShader 2 1), Gl (GlGetError 0), Gl (GlLinkProgram 2), Gl (GlGetError 0),
       Gl (GlDeleteShader 1)],
      sample_converter\<lparr>fd := 3, gbm := 11, egl_dpy := 12, core_ctx := 14,
        compute_shader := 1, shader_program := 2\<rparr>, 0)"
  by (simp add: assms init_shader_def sample_shader_def sample_converter_def
      read_input_text_file_def read_input_file_def sample_shader_file_def NULL_def
      GL_NO_ERROR_def
      GL_TRUE_def Let_def)

lemma sample_env_sel:
  "cvt_uninit sample_env = sample_converter" "p_data_in_uninit sample_env = 0"
  "sync_uninit sample_env = 48879" "in_file sample_env = sample_read 100 100"
  "egl sample_env = sample_egl" "shader sample_env = sample_shader"
  "gl sample_env = sample_gl" "out_file sample_env = sample_write"
  by (simp_all add: sample_env_def)

lemma sample_gl_sel:
  "gen_buffers_res sample_gl = (1, 2)" "buffer_in_err sample_gl = 0"
  "buffer_out_err sample_gl = 0" "use_program_err sample_gl = 0" "dispatch_err sample_gl = 0"
  "fence_sync_res sample_gl = 31" "map_buffer_res sample_gl = 32" "map_buffer_err sample_gl = 0"
  "wfopen_res sample_write = 8" "fwrite_res sample_write = 400"
  by (simp_all add: sample_gl_def sample_write_def)

lemmas sample_sel = sample_env_sel sample_gl_sel NULL_def GL_NO_ERROR_def WG_NUM_X_def
  WG_NUM_Y_def LSIZE_X_def LSIZE_Y_def

text \<open>
  Claim C10. The usage text advertises \<open>-s XxY\<close>, but with the option string
  \<open>f:h\<close> no call of \<open>getopt\<close> ever reports \<open>-s\<close>: it returns \<open>-1\<close> or the code of
  \<open>?\<close>, \<open>f\<close> or \<open>h\<close>. Whatever the arguments and the system, every
  \<open>glDispatchCompute\<close> of a run is issued for the fixed 1920x1080 image, as
  \<open>1920 / 32\<close> by \<open>1080 / 8\<close> by \<open>1\<close> work groups.
\<close>

theorem size_option_not_parsed:
  "sublist ''-s XxY'' USAGE
   \<and> fst (getopt permute ''f:h'' st) \<noteq> of_char CHR ''s''
   \<and> fst (getopt permute ''f:h'' st)
        \<in> {- 1, of_char CHR ''?'', of_char CHR ''f'', of_char CHR ''h''}
   \<and> (\<forall>ev\<in>set (fst (main permute argv0 args e)). \<forall>x y z.
         ev = Gl (GlDispatchCompute x y z) \<longrightarrow> x = 1920 div 32 \<and> y = 1080 div 8 \<and> z = 1)"
proof -
  have "USAGE = ''Usage: %s [-h] '' @ ''-s XxY''
      @ '' -f <format> <inputfile> <outputfile>\<newline>''
      @ ''-f <order>   Specify input file format\<newline>''
      @ ''-s XxY       Specify input image size (e.g. 640x480)\<newline>''
      @ ''-h           Shows this help\<newline>''"
    by (simp add: USAGE_def)
  then have "sublist ''-s XxY'' USAGE"
    unfolding sublist_def by blast
  moreover have "fst (getopt permute ''f:h'' st) \<noteq> of_char CHR ''s''"
    using getopt_codes [of permute st] by auto
  moreover have "\<forall>ev\<in>set (fst (main permute argv0 args e)). \<forall>x y z.
      ev = Gl (GlDispatchCompute x y z) \<longrightarrow> x = 1920 div 32 \<and> y = 1080 div 8 \<and> z = 1"
    using dispatch_geometry [of _ _ _ permute argv0 args e]
    by (auto simp: WG_NUM_X_def WG_NUM_Y_def LSIZE_X_def LSIZE_Y_def)
  ultimately show ?thesis
    using getopt_codes [of permute st] by blast
qed

lemma data_calls_subset: "ev \<in> set (data_calls tr) \<Longrightarrow> ev \<in> set tr"
  by (simp add: data_calls_def)

lemma sample_operands:
  "nonopts \<lparr>unscanned = [], nextchar = [], nonopts = [''in.raw'', ''out.rgba'']\<rparr>
     @ unscanned \<lparr>unscanned = [], nextchar = [], nonopts = [''in.raw'', ''out.rgba'']\<rparr>
   = [''in.raw'', ''out.rgba'']"
  by simp

lemma sample_size: "0 < sint (100 :: long)"
  by simp

lemma sample_main:
  assumes "cvt_uninit e = sample_converter" and "p_data_in_uninit e = 0"
    and "in_file e = sample_read 100 100" and "egl e = sample_egl"
    and "shader e = sample_shader"
  shows "data_calls (fst (main True ''debayer'' [''in.raw'', ''out.rgba''] e)) =
         data_calls (fst (main_gl
           (sample_converter\<lparr>fd := 3, gbm := 11, egl_dpy := 12, core_ctx := 14,
              compute_shader := 1, shader_program := 2\<rparr>) 9 100 400 ''out.rgba'' e))"
    and "snd (main True ''debayer'' [''in.raw'', ''out.rgba''] e) =
         snd (main_gl
           (sample_converter\<lparr>fd := 3, gbm := 11, egl_dpy := 12, core_ctx := 14,
              compute_shader := 1, shader_program := 2\<rparr>) 9 100 400 ''out.rgba'' e)"
  using data_calls_main [OF sample_opts sample_operands sample_read_in [OF assms(2,3)]
      sample_size sample_init_egl [OF assms(1,4)] sample_init_shader [OF assms(5)]]
    main_reaches_gl [OF sample_opts sample_operands sample_read_in [OF assms(2,3)]
      sample_size sample_init_egl [OF assms(1,4)] sample_init_shader [OF assms(5)]]
  by simp_all

lemma sample_main_data_calls:
  "data_calls (fst (main True ''debayer'' [''in.raw'', ''out.rgba''] sample_env)) =
     [Gl (GlBufferData GL_SHADER_STORAGE_BUFFER 100 9 GL_STREAM_DRAW),
      Gl (GlBufferData GL_SHADER_STORAGE_BUFFER 400 0 GL_STREAM_READ),
      Gl (GlUseProgram 2), Gl (GlDispatchCompute 60 135 1),
      Gl (GlFenceSync GL_SYNC_GPU_COMMANDS_COMPLETE 31),
      Gl (GlClientWaitSync 31 GL_SYNC_FLUSH_COMMANDS_BIT 100000),
      Gl (GlMapBufferRange GL_SHADER_STORAGE_BUFFER 0 400 GL_MAP_READ_BIT 32),
      Libc (Fopen ''out.rgba'' ''wb'' 8), Libc (Fwrite 32 1 400 8 400)]"
  by (simp add: sample_main(1) data_calls_main_gl sample_sel)

theorem size_option_not_parsed_witness:
  "Gl (GlDispatchCompute 60 135 1)
     \<in> set (fst (main True ''debayer'' [''in.raw'', ''out.rgba''] sample_env))
   \<and> (60 :: nat) = 1920 div 32 \<and> (135 :: nat) = 1080 div 8"
proof -
  have "Gl (GlDispatchCompute 60 135 1)
      \<in> set (data_calls (fst (main True ''debayer'' [''in.raw'', ''out.rgba''] sample_env)))"
    by (simp add: sample_main_data_calls)
  then have m: "Gl (GlDispatchCompute 60 135 1)
      \<in> set (fst (main True ''debayer'' [''in.raw'', ''out.rgba''] sample_env))"
    by (rule data_calls_subset)
  from size_option_not_parsed [of True "\<lparr>unscanned = [], nextchar = [], nonopts = []\<rparr>" "''debayer''" "[''in.raw'', ''out.rgba'']"
      sample_env] m
  show ?thesis by blast
qed

subsection \<open>Runs that reach the dispatch\<close>

lemma env_variants_sel:
  "cvt_uninit env_use_program_fails = sample_converter"
  "p_data_in_uninit env_use_program_fails = 0"
  "sync_uninit env_use_program_fails = 48879"
  "in_file env_use_program_fails = sample_read 100 100"
  "egl env_use_program_fails = sample_egl" "shader env_use_program_fails = sample_shader"
  "gl env_use_program_fails = sample_gl\<lparr>use_program_err := 0x0502\<rparr>"
  "out_file env_use_program_fails = sample_write"
  "cvt_uninit env_output_unwritable = sample_converter"
  "p_data_in_uninit env_output_unwritable = 0"
  "sync_uninit env_output_unwritable = 48879"
  "in_file env_output_unwritable = sample_read 100 100"
  "egl env_output_unwritable = sample_egl" "shader env_output_unwritable = sample_shader"
  "gl env_output_unwritable = sample_gl"
  "out_file env_output_unwritable = sample_write\<lparr>wfopen_res := 0\<rparr>"
  "cvt_uninit env_map_fails = sample_converter"
  "p_data_in_uninit env_map_fails = 0"
  "sync_uninit env_map_fails = 48879"
  "in_file env_map_fails = sample_read 100 100"
  "egl env_map_fails = sample_egl" "shader env_map_fails = sample_shader"
  "gl env_map_fails = sample_gl\<lparr>map_buffer_res := 0, map_buffer_err := 0x0505\<rparr>"
  "out_file env_map_fails = sample_write"
  by (simp_all add: env_use_program_fails_def env_output_unwritable_def env_map_fails_def
      sample_env_def)

text \<open>
  Claim C2 says that the handle passed to \<open>glClientWaitSync\<close> is always the one
  \<open>glFenceSync\<close> created, also when the loop body is left early. The code does
  otherwise. When \<open>glUseProgram\<close> raises an error the body is entered once and left by
  \<open>break\<close> before \<open>glFenceSync\<close>: the run has no \<open>glFenceSync\<close> at all, and
  \<open>glClientWaitSync\<close> is called with the indeterminate value of \<open>sync\<close>. The run
  goes on to map and write the output buffer and returns \<open>0\<close>.
\<close>

theorem wait_on_unset_fence:
  "data_calls (fst (main True ''debayer'' [''in.raw'', ''out.rgba''] env_use_program_fails)) =
     [Gl (GlBufferData GL_SHADER_STORAGE_BUFFER 100 9 GL_STREAM_DRAW),
      Gl (GlBufferData GL_SHADER_STORAGE_BUFFER 400 0 GL_STREAM_READ),
      Gl (GlUseProgram 2),
      Gl (GlClientWaitSync (sync_uninit env_use_program_fails) GL_SYNC_FLUSH_COMMANDS_BIT 100000),
      Gl (GlMapBufferRange GL_SHADER_STORAGE_BUFFER 0 400 GL_MAP_READ_BIT 32),
      Libc (Fopen ''out.rgba'' ''wb'' 8), Libc (Fwrite 32 1 400 8 400)]
   \<and> snd (main True ''debayer'' [''in.raw'', ''out.rgba''] env_use_program_fails) = Return 0"
  by (simp add: sample_main [of env_use_program_fails] env_variants_sel data_calls_main_gl
      main_gl_result sample_sel)

text \<open>
  Claim C3 says that the fence is waited for with a timeout of 100 ms, that is
  100,000,000 ns. The code passes \<open>100*1000\<close>, that is 100,000 ns (100 microseconds),
  next to a comment that says \<open>100mS\<close>.
\<close>

theorem fence_wait_is_100_microseconds:
  "data_calls (fst (main True ''debayer'' [''in.raw'', ''out.rgba''] sample_env)) =
     [Gl (GlBufferData GL_SHADER_STORAGE_BUFFER 100 9 GL_STREAM_DRAW),
      Gl (GlBufferData GL_SHADER_STORAGE_BUFFER 400 0 GL_STREAM_READ),
      Gl (GlUseProgram 2), Gl (GlDispatchCompute 60 135 1),
      Gl (GlFenceSync GL_SYNC_GPU_COMMANDS_COMPLETE 31),
      Gl (GlClientWaitSync 31 GL_SYNC_FLUSH_COMMANDS_BIT (100 * 1000)),
      Gl (GlMapBufferRange GL_SHADER_STORAGE_BUFFER 0 400 GL_MAP_READ_BIT 32),
      Libc (Fopen ''out.rgba'' ''wb'' 8), Libc (Fwrite 32 1 400 8 400)]
   \<and> (100 * 1000 :: 64 word) \<noteq> 100 * 1000 * 1000"
  by (simp add: sample_main_data_calls)

text \<open>
  Claim C1 says that whenever the input is read and the dispatch and the mapping
  succeed, the output file is written with 4 times the input size. It is not when
  the output file cannot be opened: the 100 bytes are read, the dispatch and the
  mapping succeed, \<open>fopen\<close> returns \<open>NULL\<close>, no \<open>fwrite\<close> follows, and \<open>main\<close>
  returns \<open>0\<close>.
\<close>

theorem unwritable_output_counterexample:
  "fst (snd (read_input_bin_file ''in.raw'' (p_data_in_uninit env_output_unwritable)
               (in_file env_output_unwritable))) = 100
   \<and> data_calls (fst (main True ''debayer'' [''in.raw'', ''out.rgba''] env_output_unwritable)) =
     [Gl (GlBufferData GL_SHADER_STORAGE_BUFFER 100 9 GL_STREAM_DRAW),
      Gl (GlBufferData GL_SHADER_STORAGE_BUFFER 400 0 GL_STREAM_READ),
      Gl (GlUseProgram 2), Gl (GlDispatchCompute 60 135 1),
      Gl (GlFenceSync GL_SYNC_GPU_COMMANDS_COMPLETE 31),
      Gl (GlClientWaitSync 31 GL_SYNC_FLUSH_COMMANDS_BIT 100000),
      Gl (GlMapBufferRange GL_SHADER_STORAGE_BUFFER 0 400 GL_MAP_READ_BIT 32),
      Libc (Fopen ''out.rgba'' ''wb'' NULL)]
   \<and> filter is_file_output
        (fst (main True ''debayer'' [''in.raw'', ''out.rgba''] env_output_unwritable))
       = [Libc (Fopen ''out.rgba'' ''wb'' NULL)]
   \<and> snd (main True ''debayer'' [''in.raw'', ''out.rgba''] env_output_unwritable) = Return 0"
proof -
  have "data_calls (fst (main True ''debayer'' [''in.raw'', ''out.rgba''] env_output_unwritable)) =
     [Gl (GlBufferData GL_SHADER_STORAGE_BUFFER 100 9 GL_STREAM_DRAW),
      Gl (GlBufferData GL_SHADER_STORAGE_BUFFER 400 0 GL_STREAM_READ),
      Gl (GlUseProgram 2), Gl (GlDispatchCompute 60 135 1),
      Gl (GlFenceSync GL_SYNC_GPU_COMMANDS_COMPLETE 31),
      Gl (GlClientWaitSync 31 GL_SYNC_FLUSH_COMMANDS_BIT 100000),
      Gl (GlMapBufferRange GL_SHADER_STORAGE_BUFFER 0 400 GL_MAP_READ_BIT 32),
      Libc (Fopen ''out.rgba'' ''wb'' NULL)]"
    by (simp add: sample_main [of env_output_unwritable] env_variants_sel data_calls_main_gl
        sample_sel)
  moreover from this have "filter is_file_output
        (fst (main True ''debayer'' [''in.raw'', ''out.rgba''] env_output_unwritable))
       = [Libc (Fopen ''out.rgba'' ''wb'' NULL)]"
    by (subst file_output_of_data_calls) simp
  moreover have "snd (main True ''debayer'' [''in.raw'', ''out.rgba''] env_output_unwritable)
      = Return 0"
    by (simp add: sample_main [of env_output_unwritable] env_variants_sel main_gl_result
        sample_sel)
  moreover have "fst (snd (read_input_bin_file ''in.raw'' (p_data_in_uninit env_output_unwritable)
               (in_file env_output_unwritable))) = 100"
    using sample_read_in [of env_output_unwritable] by (simp add: env_variants_sel)
  ultimately show ?thesis by blast
qed

lemma main_gl_reports_bytes:
  assumes "buffer_in_err (gl e) = GL_NO_ERROR" and "buffer_out_err (gl e) = GL_NO_ERROR"
    and "map_buffer_res (gl e) \<noteq> NULL" and "wfopen_res (out_file e) \<noteq> NULL"
    and "fwrite_res (out_file e) = m"
  shows "Libc (Printf ''%s: %ld bytes written\<newline>'' [S out_name, I (sint m)])
           \<in> set (fst (main_gl cvt p n m out_name e))"
  using assms
  by (simp add: main_gl_def Let_def main_output_def write_output_file_def
      split: prod.splits)

text \<open>
  Claim C1, amended. In every run in which the input file is read with a size
  \<open>S\<close> below \<open>2^29\<close> (so that \<open>4 * S\<close> fits the \<open>GLsizei\<close> the program casts it
  to) and the buffer set-up, the dispatch and the mapping succeed: \<open>4 * S\<close> does not
  overflow; the output buffer is allocated with \<open>4 * S\<close> bytes, mapped with length
  \<open>4 * S\<close>, and \<open>fwrite\<close> is asked for \<open>4 * S\<close> bytes if the output file could be
  opened; and if \<open>fwrite\<close> then writes them all, the program reports
  \<open>4 * S\<close> bytes written.
\<close>

theorem output_sizes:
  assumes "main_opts permute argv0 (- 1) \<lparr>unscanned = args, nextchar = [], nonopts = []\<rparr>
             = ([], Inr st)"
    and "nonopts st @ unscanned st = [in_name, out_name]"
    and "read_input_bin_file in_name (p_data_in_uninit e) (in_file e) = (t0, n, p)"
    and "0 < sint n" and "sint n < 2 ^ 29"
    and "init_egl ((cvt_uninit e)\<lparr>shader_fname := SHADER_FNAME\<rparr>) RENDER_NODE_FNAME (egl e)
           = (t1, cvt1, Some 0)"
    and "init_shader cvt1 (shader e) = (t2, cvt2, 0)"
    and "buffer_in_err (gl e) = GL_NO_ERROR" and "buffer_out_err (gl e) = GL_NO_ERROR"
    and "use_program_err (gl e) = GL_NO_ERROR" and "dispatch_err (gl e) = GL_NO_ERROR"
    and "map_buffer_res (gl e) \<noteq> NULL"
  shows "sint (4 * n) = 4 * sint n
     \<and> data_calls (fst (main permute argv0 args e)) =
       [Gl (GlBufferData GL_SHADER_STORAGE_BUFFER n p GL_STREAM_DRAW),
        Gl (GlBufferData GL_SHADER_STORAGE_BUFFER (4 * n) NULL GL_STREAM_READ),
        Gl (GlUseProgram (shader_program cvt2)),
        Gl (GlDispatchCompute WG_NUM_X WG_NUM_Y 1),
        Gl (GlFenceSync GL_SYNC_GPU_COMMANDS_COMPLETE (fence_sync_res (gl e))),
        Gl (GlClientWaitSync (fence_sync_res (gl e)) GL_SYNC_FLUSH_COMMANDS_BIT 100000),
        Gl (GlMapBufferRange GL_SHADER_STORAGE_BUFFER 0 (4 * n) GL_MAP_READ_BIT
              (map_buffer_res (gl e))),
        Libc (Fopen out_name ''wb'' (wfopen_res (out_file e)))]
       @ (if wfopen_res (out_file e) = NULL then []
          else [Libc (Fwrite (map_buffer_res (gl e)) 1 (4 * n) (wfopen_res (out_file e))
                        (fwrite_res (out_file e)))])
     \<and> (wfopen_res (out_file e) \<noteq> NULL \<and> fwrite_res (out_file e) = 4 * n \<longrightarrow>
          Libc (Printf ''%s: %ld bytes written\<newline>'' [S out_name, I (4 * sint n)])
            \<in> set (fst (main permute argv0 args e)))"
proof -
  note reach = assms(1-4) assms(6,7)
  have calls: "data_calls (fst (main permute argv0 args e)) =
      data_calls (fst (main_gl cvt2 p n (4 * n) out_name e))"
    by (rule data_calls_main [OF reach])
  have m: "fst (main permute argv0 args e) =
      t0 @ t1 @ t2 @ fst (main_gl cvt2 p n (4 * n) out_name e)"
    by (simp add: main_reaches_gl [OF reach])
  have wide: "sint (4 * n) = 4 * sint n"
    using sint_times4 [OF assms(4)] assms(5) by simp
  have narrow_in: "(scast (ucast n :: cint) :: long) = n"
    using assms(4,5) by (intro narrow_widen) simp_all
  have narrow_out: "(scast (ucast (4 * n) :: cint) :: long) = 4 * n"
    using assms(4,5) wide by (intro narrow_widen) simp_all
  have report: "wfopen_res (out_file e) \<noteq> NULL \<and> fwrite_res (out_file e) = 4 * n \<longrightarrow>
          Libc (Printf ''%s: %ld bytes written\<newline>'' [S out_name, I (4 * sint n)])
            \<in> set (fst (main permute argv0 args e))"
    using main_gl_reports_bytes [OF assms(8,9,12), of "4 * n" out_name cvt2 p n]
    by (simp add: m wide)
  show ?thesis
    using wide report
    by (simp add: calls data_calls_main_gl assms(8-12) narrow_in narrow_out)
qed

theorem output_sizes_witness:
  "0 < sint (100 :: long)
   \<and> map_buffer_res (gl sample_env) \<noteq> NULL \<and> wfopen_res (out_file sample_env) \<noteq> NULL
   \<and> sint (100 :: long) < 2 ^ 29
   \<and> data_calls (fst (main True ''debayer'' [''in.raw'', ''out.rgba''] sample_env)) =
       [Gl (GlBufferData GL_SHADER_STORAGE_BUFFER 100 9 GL_STREAM_DRAW),
        Gl (GlBufferData GL_SHADER_STORAGE_BUFFER 400 0 GL_STREAM_READ),
        Gl (GlUseProgram 2), Gl (GlDispatchCompute 60 135 1),
        Gl (GlFenceSync GL_SYNC_GPU_COMMANDS_COMPLETE 31),
        Gl (GlClientWaitSync 31 GL_SYNC_FLUSH_COMMANDS_BIT 100000),
        Gl (GlMapBufferRange GL_SHADER_STORAGE_BUFFER 0 400 GL_MAP_READ_BIT 32),
        Libc (Fopen ''out.rgba'' ''wb'' 8), Libc (Fwrite 32 1 400 8 400)]
   \<and> Libc (Printf ''%s: %ld bytes written\<newline>'' [S ''out.rgba'', I 400])
        \<in> set (fst (main True ''debayer'' [''in.raw'', ''out.rgba''] sample_env))"
proof -
  have sel: "buffer_in_err (gl sample_env) = GL_NO_ERROR"
    "buffer_out_err (gl sample_env) = GL_NO_ERROR"
    "use_program_err (gl sample_env) = GL_NO_ERROR"
    "dispatch_err (gl sample_env) = GL_NO_ERROR"
    "map_buffer_res (gl sample_env) \<noteq> NULL"
    by (simp_all add: sample_sel)
  show ?thesis
    using output_sizes [OF sample_opts sample_operands
        sample_read_in [OF sample_env_sel(2,4)] sample_size _
        sample_init_egl [OF sample_env_sel(1,5)] sample_init_shader [OF sample_env_sel(6)] sel]
    by (simp add: sample_sel)
qed

text \<open>
  Claim C9. When \<open>glMapBufferRange\<close> returns \<open>NULL\<close>, \<open>main\<close> neither opens nor
  writes the output file, ends with the full tear-down, and returns \<open>err\<close> as the
  last assignment left it: what \<open>glGetError\<close> answered after
  \<open>glDispatchCompute\<close> (if \<open>use_shader\<close> failed before the dispatch, the \<open>0\<close> from the
  check after \<open>glBufferData\<close>). With no error from the dispatch that is \<open>0\<close>: the
  exit status says success although no output file was produced.
\<close>

theorem map_failure_still_returns_err:
  assumes "main_opts permute argv0 (- 1) \<lparr>unscanned = args, nextchar = [], nonopts = []\<rparr>
             = ([], Inr st)"
    and "nonopts st @ unscanned st = [in_name, out_name]"
    and "read_input_bin_file in_name (p_data_in_uninit e) (in_file e) = (t0, n, p)"
    and "0 < sint n"
    and "init_egl ((cvt_uninit e)\<lparr>shader_fname := SHADER_FNAME\<rparr>) RENDER_NODE_FNAME (egl e)
           = (t1, cvt1, Some 0)"
    and "init_shader cvt1 (shader e) = (t2, cvt2, 0)"
    and "buffer_in_err (gl e) = GL_NO_ERROR" and "buffer_out_err (gl e) = GL_NO_ERROR"
    and "map_buffer_res (gl e) = NULL"
  shows "filter is_file_output (fst (main permute argv0 args e)) = []
     \<and> suffix [Gl (GlDeleteBuffers bo_num (gen_buffers_res (gl e))),
               Gl (GlDeleteProgram (shader_program cvt2)),
               Egl (EglDestroyContext (egl_dpy cvt2) (core_ctx cvt2)),
               Egl (EglTerminate (egl_dpy cvt2)), Egl (GbmDeviceDestroy (gbm cvt2)),
               Libc (Close (fd cvt2)), Libc (Free p)]
          (fst (main permute argv0 args e))
     \<and> snd (main permute argv0 args e) =
          Return (if use_program_err (gl e) = GL_NO_ERROR then dispatch_err (gl e)
                  else GL_NO_ERROR)
     \<and> (use_program_err (gl e) = GL_NO_ERROR \<and> dispatch_err (gl e) = GL_NO_ERROR \<longrightarrow>
          snd (main permute argv0 args e) = Return 0)"
proof -
  have m: "main permute argv0 args e =
      (t0 @ t1 @ t2 @ fst (main_gl cvt2 p n (4 * n) out_name e),
       snd (main_gl cvt2 p n (4 * n) out_name e))"
    by (rule main_reaches_gl [OF assms(1-6)])
  have "filter is_file_output (fst (main permute argv0 args e)) =
      filter is_file_output (data_calls (fst (main_gl cvt2 p n (4 * n) out_name e)))"
    by (subst file_output_of_data_calls) (simp add: data_calls_main [OF assms(1-6)])
  then have no_write: "filter is_file_output (fst (main permute argv0 args e)) = []"
    by (simp add: data_calls_main_gl assms(7-9))
  have "suffix (err_buffs (cvt2\<lparr>bos := gen_buffers_res (gl e)\<rparr>) p)
      (t0 @ t1 @ t2 @ fst (main_gl cvt2 p n (4 * n) out_name e))"
    using main_gl_teardown [where cvt = cvt2 and e = e and p = p and n = n and m = "4 * n"
        and out_name = out_name]
    by (metis append.assoc suffix_def)
  then have teardown: "suffix [Gl (GlDeleteBuffers bo_num (gen_buffers_res (gl e))),
               Gl (GlDeleteProgram (shader_program cvt2)),
               Egl (EglDestroyContext (egl_dpy cvt2) (core_ctx cvt2)),
               Egl (EglTerminate (egl_dpy cvt2)), Egl (GbmDeviceDestroy (gbm cvt2)),
               Libc (Close (fd cvt2)), Libc (Free p)]
          (fst (main permute argv0 args e))"
    by (simp add: m err_buffs_def free_shader_def deinit_egl_def)
  have res: "snd (main permute argv0 args e) =
          Return (if use_program_err (gl e) = GL_NO_ERROR then dispatch_err (gl e)
                  else GL_NO_ERROR)"
    by (simp add: m main_gl_result assms(7,8))
  from no_write teardown res show ?thesis
    by (simp add: GL_NO_ERROR_def)
qed

theorem map_failure_still_returns_err_witness:
  "map_buffer_res (gl env_map_fails) = NULL
   \<and> use_program_err (gl env_map_fails) = GL_NO_ERROR
   \<and> dispatch_err (gl env_map_fails) = GL_NO_ERROR
   \<and> filter is_file_output
        (fst (main True ''debayer'' [''in.raw'', ''out.rgba''] env_map_fails)) = []
   \<and> suffix [Gl (GlDeleteBuffers bo_num (1, 2)), Gl (GlDeleteProgram 2),
              Egl (EglDestroyContext 12 14), Egl (EglTerminate 12), Egl (GbmDeviceDestroy 11),
              Libc (Close 3), Libc (Free 9)]
        (fst (main True ''debayer'' [''in.raw'', ''out.rgba''] env_map_fails))
   \<and> snd (main True ''debayer'' [''in.raw'', ''out.rgba''] env_map_fails) = Return 0"
proof -
  have sel: "buffer_in_err (gl env_map_fails) = GL_NO_ERROR"
    "buffer_out_err (gl env_map_fails) = GL_NO_ERROR"
    "map_buffer_res (gl env_map_fails) = NULL"
    by (simp_all add: env_variants_sel sample_sel)
  show ?thesis
    using map_failure_still_returns_err [OF sample_opts sample_operands
        sample_read_in [OF env_variants_sel(18,20)] sample_size
        sample_init_egl [OF env_variants_sel(17,21)]
        sample_init_shader [OF env_variants_sel(22)] sel]
    by (simp add: env_variants_sel sample_sel)
qed

end
